theory Spec2Isabelle
  imports Main "HOL-Library.Sublist"
begin

section \<open>Configuration structures\<close>

text \<open>
  The structs of shared/common/config/config.go, one record each. A field keeps the name
  it has in Go, prefixed with its struct where several structs use the same field name.
  Go's \<open>int\<close> is an \<open>int\<close>; a \<open>time.Duration\<close> is its number of nanoseconds.
\<close>

type_synonym Duration = int

record TLSConfig =
  TLS_Enabled :: bool
  TLS_CertFile :: string
  TLS_KeyFile :: string

record ServerConfig =
  Server_Host :: string
  Server_Port :: int
  Server_ReadTimeout :: Duration
  Server_WriteTimeout :: Duration
  Server_IdleTimeout :: Duration
  Server_TLS :: TLSConfig

record DatabaseConfig =
  Database_Host :: string
  Database_Port :: int
  Database_User :: string
  Database_Password :: string
  Database_DBName :: string
  Database_SSLMode :: string
  Database_MaxOpenConns :: int
  Database_MaxIdleConns :: int
  Database_MaxLifetime :: Duration

record JWTConfig =
  JWT_Secret :: string
  JWT_AccessTokenDuration :: Duration
  JWT_RefreshTokenDuration :: Duration
  JWT_Issuer :: string
  JWT_Audience :: string

record KeycloakConfig =
  Keycloak_BaseURL :: string
  Keycloak_Realm :: string
  Keycloak_ClientID :: string
  Keycloak_ClientSecret :: string

record OIDCConfig =
  OIDC_Provider :: string
  OIDC_ClientID :: string
  OIDC_ClientSecret :: string
  OIDC_Domain :: string
  OIDC_Audience :: string

record BuiltInConfig =
  BuiltIn_Enabled :: bool
  BuiltIn_RequireOTP :: bool
  BuiltIn_PasswordlessOnly :: bool

record AuthSecurityConfig =
  AuthSecurity_RequireMFA :: bool
  AuthSecurity_SessionTimeout :: Duration
  AuthSecurity_MaxConcurrentSessions :: int
  AuthSecurity_IPAllowlist :: "string list"

record AuthConfig =
  Auth_Provider :: string
  Auth_JWT :: JWTConfig
  Auth_Keycloak :: KeycloakConfig
  Auth_OIDC :: OIDCConfig
  Auth_BuiltIn :: BuiltInConfig
  Auth_Security :: AuthSecurityConfig

record NATSConfig =
  NATS_URL :: string
  NATS_ClusterID :: string
  NATS_ClientID :: string

record RedisConfig =
  Redis_Host :: string
  Redis_Port :: int
  Redis_Password :: string
  Redis_DB :: int
  Redis_PoolSize :: int

record OpenAIConfig =
  OpenAI_APIKey :: string
  OpenAI_BaseURL :: string
  OpenAI_Model :: string

record CustomAIConfig =
  CustomAI_Endpoint :: string
  CustomAI_APIKey :: string

record AIConfig =
  AI_OpenAI :: OpenAIConfig
  AI_Custom :: CustomAIConfig

record LoggingConfig =
  Logging_Level :: string
  Logging_Format :: string
  Logging_Output :: string
  Logging_File :: string

record CacheConfig =
  Cache_TTL :: Duration
  Cache_CleanupInterval :: Duration
  Cache_MaxSize :: int
  Cache_Strategy :: string

record RateLimitConfig =
  RateLimit_Enabled :: bool
  RateLimit_RPS :: int
  RateLimit_Burst :: int

record CORSConfig =
  CORS_AllowedOrigins :: "string list"
  CORS_AllowedMethods :: "string list"
  CORS_AllowedHeaders :: "string list"

record EncryptionConfig =
  Encryption_Key :: string
  Encryption_Algorithm :: string

record SecurityConfig =
  Security_RateLimit :: RateLimitConfig
  Security_CORS :: CORSConfig
  Security_Encryption :: EncryptionConfig

record MetricsConfig =
  Metrics_Enabled :: bool
  Metrics_Path :: string
  Metrics_Port :: int

record Config =
  Server :: ServerConfig
  Database :: DatabaseConfig
  Auth :: AuthConfig
  NATS :: NATSConfig
  Redis :: RedisConfig
  AI :: AIConfig
  Logging :: LoggingConfig
  Cache :: CacheConfig
  Security :: SecurityConfig
  Metrics :: MetricsConfig

section \<open>Errors\<close>

text \<open>
  A Go \<open>error\<close> value. \<open>ConfigFileNotFoundError\<close> is viper's error type that \<open>Load\<close>
  tests for with a type assertion; \<open>ErrorString\<close> is any other error, by its message;
  \<open>Errorf prefix err\<close> is \<^verbatim>\<open>fmt.Errorf(prefix + "%w", err)\<close>, which wraps \<open>err\<close>.
\<close>

datatype error =
    ConfigFileNotFoundError
  | ErrorString string
  | Errorf string error

text \<open>A call that returns \<open>(value, error)\<close> returns \<open>Inl err\<close> or \<open>Inr value\<close>.\<close>

definition bindE :: "error + 'a \<Rightarrow> ('a \<Rightarrow> error + 'b) \<Rightarrow> error + 'b" where
  "bindE r f = (case r of Inl e \<Rightarrow> Inl e | Inr a \<Rightarrow> f a)"

section \<open>Loading the configuration\<close>

subsection \<open>The configuration library\<close>

text \<open>
  \<open>Load\<close> drives the package-level instance of the viper library. What \<open>Load\<close> uses
  of viper is modelled from viper's documentation: a setting is looked up by its
  lower-case dotted key, in the precedence order environment variable, configuration
  file, default; with \<open>AutomaticEnv\<close> the environment variable of a key is the upper-case
  key behind the prefix and an underscore, after the key replacer; an empty variable
  counts as unset; a nested key is hidden when the variable of one of its parent keys is
  set. A setting's value is a Go \<open>any\<close>; the values that occur are strings, ints, bools
  and string slices.
\<close>

datatype any = AString string | AInt int | ABool bool | AStrings "string list"

record Viper =
  configName :: string
  configType :: string
  configPaths :: "string list"
  envPrefix :: string
  envKeyReplacer :: "(char \<times> char) option"
  automaticEnvApplied :: bool
  defaults :: "string \<rightharpoonup> any"
  config :: "string \<rightharpoonup> any"

definition viper_New :: Viper where
  "viper_New = \<lparr>configName = ''config'', configType = [], configPaths = [],
     envPrefix = [], envKeyReplacer = None, automaticEnvApplied = False,
     defaults = Map.empty, config = Map.empty\<rparr>"

text \<open>
  What the process finds outside: its environment variables, and the outcome of searching
  the configuration paths for the named file, reading it and parsing it as the given type.
  The parsed file is its settings by lower-case dotted key.
\<close>

datatype read_outcome =
    NotFound
  | ReadFailure string
  | ParseFailure string
  | Parsed "string \<rightharpoonup> any"

record system =
  environ :: "string \<rightharpoonup> string"
  readConfigFile :: "string \<Rightarrow> string \<Rightarrow> string list \<Rightarrow> read_outcome"

definition SetConfigName :: "string \<Rightarrow> Viper \<Rightarrow> Viper" where
  "SetConfigName n v = v\<lparr>configName := n\<rparr>"

definition SetConfigType :: "string \<Rightarrow> Viper \<Rightarrow> Viper" where
  "SetConfigType t v = v\<lparr>configType := t\<rparr>"

definition AddConfigPath :: "string \<Rightarrow> Viper \<Rightarrow> Viper" where
  "AddConfigPath p v = v\<lparr>configPaths := configPaths v @ [p]\<rparr>"

definition SetEnvPrefix :: "string \<Rightarrow> Viper \<Rightarrow> Viper" where
  "SetEnvPrefix p v = v\<lparr>envPrefix := p\<rparr>"

definition SetEnvKeyReplacer :: "char \<Rightarrow> char \<Rightarrow> Viper \<Rightarrow> Viper" where
  "SetEnvKeyReplacer old new v = v\<lparr>envKeyReplacer := Some (old, new)\<rparr>"

definition AutomaticEnv :: "Viper \<Rightarrow> Viper" where
  "AutomaticEnv v = v\<lparr>automaticEnvApplied := True\<rparr>"

definition SetDefault :: "string \<Rightarrow> any \<Rightarrow> Viper \<Rightarrow> Viper" where
  "SetDefault k x v = v\<lparr>defaults := (defaults v)(k \<mapsto> x)\<rparr>"

text \<open>Upper case of an ASCII letter; the keys of this configuration are ASCII.\<close>

definition toUpper :: "char \<Rightarrow> char" where
  "toUpper c = (let n = of_char c :: nat in if 97 \<le> n \<and> n \<le> 122 then char_of (n - 32) else c)"

definition mergeWithEnvPrefix :: "Viper \<Rightarrow> string \<Rightarrow> string" where
  "mergeWithEnvPrefix v k =
     (if envPrefix v \<noteq> [] then map toUpper (envPrefix v @ ''_'' @ k) else map toUpper k)"

definition getEnv :: "Viper \<Rightarrow> system \<Rightarrow> string \<Rightarrow> string option" where
  "getEnv v sys k =
     (let k' = (case envKeyReplacer v of
                  None \<Rightarrow> k
                | Some (old, new) \<Rightarrow> map (\<lambda>c. if c = old then new else c) k)
      in case environ sys k' of
           None \<Rightarrow> None
         | Some val \<Rightarrow> if val = [] then None else Some val)"

text \<open>The parent keys of a dotted key: \<open>a\<close> and \<open>a.b\<close> for \<open>a.b.c\<close>.\<close>

fun parentKeys :: "string \<Rightarrow> string \<Rightarrow> string list" where
  "parentKeys acc [] = []"
| "parentKeys acc (c # cs) =
     (if c = CHR ''.'' then acc # parentKeys (acc @ [c]) cs else parentKeys (acc @ [c]) cs)"

definition isPathShadowedInAutoEnv :: "Viper \<Rightarrow> system \<Rightarrow> string \<Rightarrow> bool" where
  "isPathShadowedInAutoEnv v sys k \<longleftrightarrow>
     list_ex (\<lambda>p. getEnv v sys (mergeWithEnvPrefix v p) \<noteq> None) (parentKeys [] k)"

definition viper_find :: "Viper \<Rightarrow> system \<Rightarrow> string \<Rightarrow> any option" where
  "viper_find v sys k =
     (case (if automaticEnvApplied v then getEnv v sys (mergeWithEnvPrefix v k) else None) of
        Some val \<Rightarrow> Some (AString val)
      | None \<Rightarrow>
          if automaticEnvApplied v \<and> isPathShadowedInAutoEnv v sys k then None
          else (case config v k of
                  Some x \<Rightarrow> Some x
                | None \<Rightarrow> defaults v k))"

definition AllKeys :: "Viper \<Rightarrow> string set" where
  "AllKeys v = dom (config v) \<union> dom (defaults v)"

definition ReadInConfig :: "system \<Rightarrow> Viper \<Rightarrow> error option \<times> Viper" where
  "ReadInConfig sys v =
     (case readConfigFile sys (configName v) (configType v) (configPaths v) of
        NotFound \<Rightarrow> (Some ConfigFileNotFoundError, v)
      | ReadFailure msg \<Rightarrow> (Some (ErrorString msg), v)
      | ParseFailure msg \<Rightarrow> (Some (ErrorString msg), v)
      | Parsed settings \<Rightarrow> (None, v\<lparr>config := settings\<rparr>))"

text \<open>
  \<open>Unmarshal\<close> decodes the settings of all keys into the struct, field by field along
  the \<open>mapstructure\<close> tags. A field whose key has no setting keeps its zero value. How a
  value is converted to the type of a field (the library's weakly typed decoding, with a
  hook that parses a string into a duration) is a parameter: one decoder per field type.
  The library reports the failures of all fields in one error; the model returns the
  first, and \<open>Load\<close> only wraps it.
\<close>

record decoders =
  decodeString :: "any \<Rightarrow> error + string"
  decodeInt :: "any \<Rightarrow> error + int"
  decodeBool :: "any \<Rightarrow> error + bool"
  decodeDuration :: "any \<Rightarrow> error + Duration"
  decodeStrings :: "any \<Rightarrow> error + string list"

definition field :: "Viper \<Rightarrow> system \<Rightarrow> (any \<Rightarrow> error + 'a) \<Rightarrow> 'a \<Rightarrow> string \<Rightarrow> error + 'a" where
  "field v sys decode zero k =
     (if k \<in> AllKeys v
      then (case viper_find v sys k of None \<Rightarrow> Inr zero | Some x \<Rightarrow> decode x)
      else Inr zero)"

definition decode_TLSConfig :: "decoders \<Rightarrow> Viper \<Rightarrow> system \<Rightarrow> error + TLSConfig" where
  "decode_TLSConfig d v sys =
     bindE (field v sys (decodeBool d) False ''server.tls.enabled'') (\<lambda>x1.
     bindE (field v sys (decodeString d) [] ''server.tls.cert_file'') (\<lambda>x2.
     bindE (field v sys (decodeString d) [] ''server.tls.key_file'') (\<lambda>x3.
     Inr \<lparr>TLS_Enabled = x1, TLS_CertFile = x2, TLS_KeyFile = x3\<rparr>)))"

definition decode_ServerConfig :: "decoders \<Rightarrow> Viper \<Rightarrow> system \<Rightarrow> error + ServerConfig" where
  "decode_ServerConfig d v sys =
     bindE (field v sys (decodeString d) [] ''server.host'') (\<lambda>x1.
     bindE (field v sys (decodeInt d) 0 ''server.port'') (\<lambda>x2.
     bindE (field v sys (decodeDuration d) 0 ''server.read_timeout'') (\<lambda>x3.
     bindE (field v sys (decodeDuration d) 0 ''server.write_timeout'') (\<lambda>x4.
     bindE (field v sys (decodeDuration d) 0 ''server.idle_timeout'') (\<lambda>x5.
     bindE (decode_TLSConfig d v sys) (\<lambda>x6.
     Inr \<lparr>Server_Host = x1, Server_Port = x2, Server_ReadTimeout = x3, Server_WriteTimeout = x4,
            Server_IdleTimeout = x5, Server_TLS = x6\<rparr>))))))"

definition decode_DatabaseConfig :: "decoders \<Rightarrow> Viper \<Rightarrow> system \<Rightarrow> error + DatabaseConfig" where
  "decode_DatabaseConfig d v sys =
     bindE (field v sys (decodeString d) [] ''database.host'') (\<lambda>x1.
     bindE (field v sys (decodeInt d) 0 ''database.port'') (\<lambda>x2.
     bindE (field v sys (decodeString d) [] ''database.user'') (\<lambda>x3.
     bindE (field v sys (decodeString d) [] ''database.password'') (\<lambda>x4.
     bindE (field v sys (decodeString d) [] ''database.dbname'') (\<lambda>x5.
     bindE (field v sys (decodeString d) [] ''database.sslmode'') (\<lambda>x6.
     bindE (field v sys (decodeInt d) 0 ''database.max_open_conns'') (\<lambda>x7.
     bindE (field v sys (decodeInt d) 0 ''database.max_idle_conns'') (\<lambda>x8.
     bindE (field v sys (decodeDuration d) 0 ''database.max_lifetime'') (\<lambda>x9.
     Inr \<lparr>Database_Host = x1, Database_Port = x2, Database_User = x3, Database_Password = x4,
            Database_DBName = x5, Database_SSLMode = x6, Database_MaxOpenConns = x7,
            Database_MaxIdleConns = x8, Database_MaxLifetime = x9\<rparr>)))))))))"

definition decode_JWTConfig :: "decoders \<Rightarrow> Viper \<Rightarrow> system \<Rightarrow> error + JWTConfig" where
  "decode_JWTConfig d v sys =
     bindE (field v sys (decodeString d) [] ''auth.jwt.secret'') (\<lambda>x1.
     bindE (field v sys (decodeDuration d) 0 ''auth.jwt.access_token_duration'') (\<lambda>x2.
     bindE (field v sys (decodeDuration d) 0 ''auth.jwt.refresh_token_duration'') (\<lambda>x3.
     bindE (field v sys (decodeString d) [] ''auth.jwt.issuer'') (\<lambda>x4.
     bindE (field v sys (decodeString d) [] ''auth.jwt.audience'') (\<lambda>x5.
     Inr \<lparr>JWT_Secret = x1, JWT_AccessTokenDuration = x2, JWT_RefreshTokenDuration = x3, JWT_Issuer
            = x4, JWT_Audience = x5\<rparr>)))))"

definition decode_KeycloakConfig :: "decoders \<Rightarrow> Viper \<Rightarrow> system \<Rightarrow> error + KeycloakConfig" where
  "decode_KeycloakConfig d v sys =
     bindE (field v sys (decodeString d) [] ''auth.keycloak.base_url'') (\<lambda>x1.
     bindE (field v sys (decodeString d) [] ''auth.keycloak.realm'') (\<lambda>x2.
     bindE (field v sys (decodeString d) [] ''auth.keycloak.client_id'') (\<lambda>x3.
     bindE (field v sys (decodeString d) [] ''auth.keycloak.client_secret'') (\<lambda>x4.
     Inr \<lparr>Keycloak_BaseURL = x1, Keycloak_Realm = x2, Keycloak_ClientID = x3,
            Keycloak_ClientSecret = x4\<rparr>))))"

definition decode_OIDCConfig :: "decoders \<Rightarrow> Viper \<Rightarrow> system \<Rightarrow> error + OIDCConfig" where
  "decode_OIDCConfig d v sys =
     bindE (field v sys (decodeString d) [] ''auth.oidc.provider'') (\<lambda>x1.
     bindE (field v sys (decodeString d) [] ''auth.oidc.client_id'') (\<lambda>x2.
     bindE (field v sys (decodeString d) [] ''auth.oidc.client_secret'') (\<lambda>x3.
     bindE (field v sys (decodeString d) [] ''auth.oidc.domain'') (\<lambda>x4.
     bindE (field v sys (decodeString d) [] ''auth.oidc.audience'') (\<lambda>x5.
     Inr \<lparr>OIDC_Provider = x1, OIDC_ClientID = x2, OIDC_ClientSecret = x3, OIDC_Domain = x4,
            OIDC_Audience = x5\<rparr>)))))"

definition decode_BuiltInConfig :: "decoders \<Rightarrow> Viper \<Rightarrow> system \<Rightarrow> error + BuiltInConfig" where
  "decode_BuiltInConfig d v sys =
     bindE (field v sys (decodeBool d) False ''auth.built_in.enabled'') (\<lambda>x1.
     bindE (field v sys (decodeBool d) False ''auth.built_in.require_otp'') (\<lambda>x2.
     bindE (field v sys (decodeBool d) False ''auth.built_in.passwordless_only'') (\<lambda>x3.
     Inr \<lparr>BuiltIn_Enabled = x1, BuiltIn_RequireOTP = x2, BuiltIn_PasswordlessOnly = x3\<rparr>)))"

definition decode_AuthSecurityConfig :: "decoders \<Rightarrow> Viper \<Rightarrow> system \<Rightarrow> error + AuthSecurityConfig" where
  "decode_AuthSecurityConfig d v sys =
     bindE (field v sys (decodeBool d) False ''auth.security.require_mfa'') (\<lambda>x1.
     bindE (field v sys (decodeDuration d) 0 ''auth.security.session_timeout'') (\<lambda>x2.
     bindE (field v sys (decodeInt d) 0 ''auth.security.max_concurrent_sessions'') (\<lambda>x3.
     bindE (field v sys (decodeStrings d) [] ''auth.security.ip_allowlist'') (\<lambda>x4.
     Inr \<lparr>AuthSecurity_RequireMFA = x1, AuthSecurity_SessionTimeout = x2,
            AuthSecurity_MaxConcurrentSessions = x3, AuthSecurity_IPAllowlist = x4\<rparr>))))"

definition decode_AuthConfig :: "decoders \<Rightarrow> Viper \<Rightarrow> system \<Rightarrow> error + AuthConfig" where
  "decode_AuthConfig d v sys =
     bindE (field v sys (decodeString d) [] ''auth.provider'') (\<lambda>x1.
     bindE (decode_JWTConfig d v sys) (\<lambda>x2.
     bindE (decode_KeycloakConfig d v sys) (\<lambda>x3.
     bindE (decode_OIDCConfig d v sys) (\<lambda>x4.
     bindE (decode_BuiltInConfig d v sys) (\<lambda>x5.
     bindE (decode_AuthSecurityConfig d v sys) (\<lambda>x6.
     Inr \<lparr>Auth_Provider = x1, Auth_JWT = x2, Auth_Keycloak = x3, Auth_OIDC = x4, Auth_BuiltIn =
            x5, Auth_Security = x6\<rparr>))))))"

definition decode_NATSConfig :: "decoders \<Rightarrow> Viper \<Rightarrow> system \<Rightarrow> error + NATSConfig" where
  "decode_NATSConfig d v sys =
     bindE (field v sys (decodeString d) [] ''nats.url'') (\<lambda>x1.
     bindE (field v sys (decodeString d) [] ''nats.cluster_id'') (\<lambda>x2.
     bindE (field v sys (decodeString d) [] ''nats.client_id'') (\<lambda>x3.
     Inr \<lparr>NATS_URL = x1, NATS_ClusterID = x2, NATS_ClientID = x3\<rparr>)))"

definition decode_RedisConfig :: "decoders \<Rightarrow> Viper \<Rightarrow> system \<Rightarrow> error + RedisConfig" where
  "decode_RedisConfig d v sys =
     bindE (field v sys (decodeString d) [] ''redis.host'') (\<lambda>x1.
     bindE (field v sys (decodeInt d) 0 ''redis.port'') (\<lambda>x2.
     bindE (field v sys (decodeString d) [] ''redis.password'') (\<lambda>x3.
     bindE (field v sys (decodeInt d) 0 ''redis.db'') (\<lambda>x4.
     bindE (field v sys (decodeInt d) 0 ''redis.pool_size'') (\<lambda>x5.
     Inr \<lparr>Redis_Host = x1, Redis_Port = x2, Redis_Password = x3, Redis_DB = x4, Redis_PoolSize =
            x5\<rparr>)))))"

definition decode_OpenAIConfig :: "decoders \<Rightarrow> Viper \<Rightarrow> system \<Rightarrow> error + OpenAIConfig" where
  "decode_OpenAIConfig d v sys =
     bindE (field v sys (decodeString d) [] ''ai.openai.api_key'') (\<lambda>x1.
     bindE (field v sys (decodeString d) [] ''ai.openai.base_url'') (\<lambda>x2.
     bindE (field v sys (decodeString d) [] ''ai.openai.model'') (\<lambda>x3.
     Inr \<lparr>OpenAI_APIKey = x1, OpenAI_BaseURL = x2, OpenAI_Model = x3\<rparr>)))"

definition decode_CustomAIConfig :: "decoders \<Rightarrow> Viper \<Rightarrow> system \<Rightarrow> error + CustomAIConfig" where
  "decode_CustomAIConfig d v sys =
     bindE (field v sys (decodeString d) [] ''ai.custom.endpoint'') (\<lambda>x1.
     bindE (field v sys (decodeString d) [] ''ai.custom.api_key'') (\<lambda>x2.
     Inr \<lparr>CustomAI_Endpoint = x1, CustomAI_APIKey = x2\<rparr>))"

definition decode_AIConfig :: "decoders \<Rightarrow> Viper \<Rightarrow> system \<Rightarrow> error + AIConfig" where
  "decode_AIConfig d v sys =
     bindE (decode_OpenAIConfig d v sys) (\<lambda>x1.
     bindE (decode_CustomAIConfig d v sys) (\<lambda>x2.
     Inr \<lparr>AI_OpenAI = x1, AI_Custom = x2\<rparr>))"

definition decode_LoggingConfig :: "decoders \<Rightarrow> Viper \<Rightarrow> system \<Rightarrow> error + LoggingConfig" where
  "decode_LoggingConfig d v sys =
     bindE (field v sys (decodeString d) [] ''logging.level'') (\<lambda>x1.
     bindE (field v sys (decodeString d) [] ''logging.format'') (\<lambda>x2.
     bindE (field v sys (decodeString d) [] ''logging.output'') (\<lambda>x3.
     bindE (field v sys (decodeString d) [] ''logging.file'') (\<lambda>x4.
     Inr \<lparr>Logging_Level = x1, Logging_Format = x2, Logging_Output = x3, Logging_File = x4\<rparr>))))"

definition decode_CacheConfig :: "decoders \<Rightarrow> Viper \<Rightarrow> system \<Rightarrow> error + CacheConfig" where
  "decode_CacheConfig d v sys =
     bindE (field v sys (decodeDuration d) 0 ''cache.ttl'') (\<lambda>x1.
     bindE (field v sys (decodeDuration d) 0 ''cache.cleanup_interval'') (\<lambda>x2.
     bindE (field v sys (decodeInt d) 0 ''cache.max_size'') (\<lambda>x3.
     bindE (field v sys (decodeString d) [] ''cache.strategy'') (\<lambda>x4.
     Inr \<lparr>Cache_TTL = x1, Cache_CleanupInterval = x2, Cache_MaxSize = x3, Cache_Strategy = x4\<rparr>))))"

definition decode_RateLimitConfig :: "decoders \<Rightarrow> Viper \<Rightarrow> system \<Rightarrow> error + RateLimitConfig" where
  "decode_RateLimitConfig d v sys =
     bindE (field v sys (decodeBool d) False ''security.rate_limit.enabled'') (\<lambda>x1.
     bindE (field v sys (decodeInt d) 0 ''security.rate_limit.rps'') (\<lambda>x2.
     bindE (field v sys (decodeInt d) 0 ''security.rate_limit.burst'') (\<lambda>x3.
     Inr \<lparr>RateLimit_Enabled = x1, RateLimit_RPS = x2, RateLimit_Burst = x3\<rparr>)))"

definition decode_CORSConfig :: "decoders \<Rightarrow> Viper \<Rightarrow> system \<Rightarrow> error + CORSConfig" where
  "decode_CORSConfig d v sys =
     bindE (field v sys (decodeStrings d) [] ''security.cors.allowed_origins'') (\<lambda>x1.
     bindE (field v sys (decodeStrings d) [] ''security.cors.allowed_methods'') (\<lambda>x2.
     bindE (field v sys (decodeStrings d) [] ''security.cors.allowed_headers'') (\<lambda>x3.
     Inr \<lparr>CORS_AllowedOrigins = x1, CORS_AllowedMethods = x2, CORS_AllowedHeaders = x3\<rparr>)))"

definition decode_EncryptionConfig :: "decoders \<Rightarrow> Viper \<Rightarrow> system \<Rightarrow> error + EncryptionConfig" where
  "decode_EncryptionConfig d v sys =
     bindE (field v sys (decodeString d) [] ''security.encryption.key'') (\<lambda>x1.
     bindE (field v sys (decodeString d) [] ''security.encryption.algorithm'') (\<lambda>x2.
     Inr \<lparr>Encryption_Key = x1, Encryption_Algorithm = x2\<rparr>))"

definition decode_SecurityConfig :: "decoders \<Rightarrow> Viper \<Rightarrow> system \<Rightarrow> error + SecurityConfig" where
  "decode_SecurityConfig d v sys =
     bindE (decode_RateLimitConfig d v sys) (\<lambda>x1.
     bindE (decode_CORSConfig d v sys) (\<lambda>x2.
     bindE (decode_EncryptionConfig d v sys) (\<lambda>x3.
     Inr \<lparr>Security_RateLimit = x1, Security_CORS = x2, Security_Encryption = x3\<rparr>)))"

definition decode_MetricsConfig :: "decoders \<Rightarrow> Viper \<Rightarrow> system \<Rightarrow> error + MetricsConfig" where
  "decode_MetricsConfig d v sys =
     bindE (field v sys (decodeBool d) False ''metrics.enabled'') (\<lambda>x1.
     bindE (field v sys (decodeString d) [] ''metrics.path'') (\<lambda>x2.
     bindE (field v sys (decodeInt d) 0 ''metrics.port'') (\<lambda>x3.
     Inr \<lparr>Metrics_Enabled = x1, Metrics_Path = x2, Metrics_Port = x3\<rparr>)))"

definition decode_Config :: "decoders \<Rightarrow> Viper \<Rightarrow> system \<Rightarrow> error + Config" where
  "decode_Config d v sys =
     bindE (decode_ServerConfig d v sys) (\<lambda>x1.
     bindE (decode_DatabaseConfig d v sys) (\<lambda>x2.
     bindE (decode_AuthConfig d v sys) (\<lambda>x3.
     bindE (decode_NATSConfig d v sys) (\<lambda>x4.
     bindE (decode_RedisConfig d v sys) (\<lambda>x5.
     bindE (decode_AIConfig d v sys) (\<lambda>x6.
     bindE (decode_LoggingConfig d v sys) (\<lambda>x7.
     bindE (decode_CacheConfig d v sys) (\<lambda>x8.
     bindE (decode_SecurityConfig d v sys) (\<lambda>x9.
     bindE (decode_MetricsConfig d v sys) (\<lambda>x10.
     Inr \<lparr>Server = x1, Database = x2, Auth = x3, NATS = x4, Redis = x5, AI = x6, Logging = x7,
            Cache = x8, Security = x9, Metrics = x10\<rparr>))))))))))"

definition Unmarshal :: "decoders \<Rightarrow> Viper \<Rightarrow> system \<Rightarrow> error + Config" where
  "Unmarshal d v sys = decode_Config d v sys"

subsection \<open>setDefaults and Load\<close>

text \<open>
  \<open>setDefaults\<close> is a straight line of \<open>viper.SetDefault(key, value)\<close> calls; the model
  runs them from first to last over the list of their arguments.
\<close>

definition setDefaults :: "Viper \<Rightarrow> Viper" where
  "setDefaults v = foldl (\<lambda>v (k, x). SetDefault k x v) v
     [(''server.host'', AString ''localhost''),
      (''server.port'', AInt 8081),
      (''server.read_timeout'', AString ''30s''),
      (''server.write_timeout'', AString ''30s''),
      (''server.idle_timeout'', AString ''60s''),
      (''server.tls.enabled'', ABool False),
      (''database.host'', AString ''localhost''),
      (''database.port'', AInt 5432),
      (''database.user'', AString ''bpms_user''),
      (''database.password'', AString ''bpms_pass''),
      (''database.dbname'', AString ''ai_bpms''),
      (''database.sslmode'', AString ''disable''),
      (''database.max_open_conns'', AInt 25),
      (''database.max_idle_conns'', AInt 10),
      (''database.max_lifetime'', AString ''5m''),
      (''auth.provider'', AString ''jwt''),
      (''auth.jwt.secret'', AString ''change-me-in-production''),
      (''auth.jwt.access_token_duration'', AString ''15m''),
      (''auth.jwt.refresh_token_duration'', AString ''168h''),
      (''auth.jwt.issuer'', AString ''ai-bpms''),
      (''auth.jwt.audience'', AString ''ai-bpms-users''),
      (''auth.built_in.enabled'', ABool True),
      (''auth.security.session_timeout'', AString ''4h''),
      (''auth.security.max_concurrent_sessions'', AInt 3),
      (''nats.url'', AString ''nats://localhost:4222''),
      (''nats.cluster_id'', AString ''bpms-cluster''),
      (''nats.client_id'', AString ''bpms-client''),
      (''redis.host'', AString ''localhost''),
      (''redis.port'', AInt 6379),
      (''redis.db'', AInt 0),
      (''redis.pool_size'', AInt 10),
      (''ai.openai.base_url'', AString ''https://api.openai.com/v1''),
      (''ai.openai.model'', AString ''gpt-4''),
      (''logging.level'', AString ''info''),
      (''logging.format'', AString ''json''),
      (''logging.output'', AString ''stdout''),
      (''cache.ttl'', AString ''1h''),
      (''cache.cleanup_interval'', AString ''10m''),
      (''cache.max_size'', AInt 1000),
      (''cache.strategy'', AString ''lru''),
      (''security.rate_limit.enabled'', ABool True),
      (''security.rate_limit.rps'', AInt 100),
      (''security.rate_limit.burst'', AInt 200),
      (''security.cors.allowed_origins'', AStrings [''*'']),
      (''security.cors.allowed_methods'', AStrings [''GET'', ''POST'', ''PUT'', ''DELETE'', ''OPTIONS'']),
      (''security.cors.allowed_headers'', AStrings [''*'']),
      (''security.encryption.algorithm'', AString ''AES-256-GCM''),
      (''metrics.enabled'', ABool True),
      (''metrics.path'', AString ''/metrics''),
      (''metrics.port'', AInt 9090)]"

text \<open>
  \<open>Load\<close> starts from the library's fresh package-level instance (no other code of the
  repository touches it) and returns \<open>(nil, err)\<close> as \<open>Inl err\<close> and \<open>(&config, nil)\<close>
  as \<open>Inr config\<close>.
\<close>

definition Load :: "decoders \<Rightarrow> system \<Rightarrow> error + Config" where
  "Load d sys =
    (let v = SetConfigName ''config'' viper_New;
         v = SetConfigType ''yaml'' v;
         v = AddConfigPath ''./configs'' v;
         v = AddConfigPath ''.'' v;
         v = SetEnvPrefix ''BPMS'' v;
         v = SetEnvKeyReplacer (CHR ''.'') (CHR ''_'') v;
         v = AutomaticEnv v;
         v = setDefaults v;
         (err, v) = ReadInConfig sys v
     in case (case err of
                None \<Rightarrow> None
              | Some e \<Rightarrow> (case e of
                    ConfigFileNotFoundError \<Rightarrow> None
                  | _ \<Rightarrow> Some (Errorf ''failed to read config file: '' e))) of
          Some e \<Rightarrow> Inl e
        | None \<Rightarrow>
            (case Unmarshal d v sys of
               Inl e \<Rightarrow> Inl (Errorf ''failed to unmarshal config: '' e)
             | Inr cfg \<Rightarrow> Inr cfg))"

text \<open>The configuration of the hard-coded defaults; a duration is in nanoseconds.\<close>

definition Second :: Duration where
  "Second = 1000000000"

definition Minute :: Duration where
  "Minute = 60 * Second"

definition Hour :: Duration where
  "Hour = 60 * Minute"

definition defaultConfig :: Config where
  "defaultConfig =
    \<lparr>Server = \<lparr>Server_Host = ''localhost'', Server_Port = 8081,
        Server_ReadTimeout = 30 * Second, Server_WriteTimeout = 30 * Second,
        Server_IdleTimeout = 60 * Second,
        Server_TLS = \<lparr>TLS_Enabled = False, TLS_CertFile = [], TLS_KeyFile = []\<rparr>\<rparr>,
     Database = \<lparr>Database_Host = ''localhost'', Database_Port = 5432,
        Database_User = ''bpms_user'', Database_Password = ''bpms_pass'',
        Database_DBName = ''ai_bpms'', Database_SSLMode = ''disable'',
        Database_MaxOpenConns = 25, Database_MaxIdleConns = 10,
        Database_MaxLifetime = 5 * Minute\<rparr>,
     Auth = \<lparr>Auth_Provider = ''jwt'',
        Auth_JWT = \<lparr>JWT_Secret = ''change-me-in-production'',
          JWT_AccessTokenDuration = 15 * Minute, JWT_RefreshTokenDuration = 168 * Hour,
          JWT_Issuer = ''ai-bpms'', JWT_Audience = ''ai-bpms-users''\<rparr>,
        Auth_Keycloak = \<lparr>Keycloak_BaseURL = [], Keycloak_Realm = [],
          Keycloak_ClientID = [], Keycloak_ClientSecret = []\<rparr>,
        Auth_OIDC = \<lparr>OIDC_Provider = [], OIDC_ClientID = [], OIDC_ClientSecret = [],
          OIDC_Domain = [], OIDC_Audience = []\<rparr>,
        Auth_BuiltIn = \<lparr>BuiltIn_Enabled = True, BuiltIn_RequireOTP = False,
          BuiltIn_PasswordlessOnly = False\<rparr>,
        Auth_Security = \<lparr>AuthSecurity_RequireMFA = False,
          AuthSecurity_SessionTimeout = 4 * Hour,
          AuthSecurity_MaxConcurrentSessions = 3, AuthSecurity_IPAllowlist = []\<rparr>\<rparr>,
     NATS = \<lparr>NATS_URL = ''nats://localhost:4222'', NATS_ClusterID = ''bpms-cluster'',
        NATS_ClientID = ''bpms-client''\<rparr>,
     Redis = \<lparr>Redis_Host = ''localhost'', Redis_Port = 6379, Redis_Password = [],
        Redis_DB = 0, Redis_PoolSize = 10\<rparr>,
     AI = \<lparr>AI_OpenAI = \<lparr>OpenAI_APIKey = [], OpenAI_BaseURL = ''https://api.openai.com/v1'',
          OpenAI_Model = ''gpt-4''\<rparr>,
        AI_Custom = \<lparr>CustomAI_Endpoint = [], CustomAI_APIKey = []\<rparr>\<rparr>,
     Logging = \<lparr>Logging_Level = ''info'', Logging_Format = ''json'',
        Logging_Output = ''stdout'', Logging_File = []\<rparr>,
     Cache = \<lparr>Cache_TTL = 1 * Hour, Cache_CleanupInterval = 10 * Minute,
        Cache_MaxSize = 1000, Cache_Strategy = ''lru''\<rparr>,
     Security = \<lparr>Security_RateLimit = \<lparr>RateLimit_Enabled = True, RateLimit_RPS = 100,
          RateLimit_Burst = 200\<rparr>,
        Security_CORS = \<lparr>CORS_AllowedOrigins = [''*''],
          CORS_AllowedMethods = [''GET'', ''POST'', ''PUT'', ''DELETE'', ''OPTIONS''],
          CORS_AllowedHeaders = [''*'']\<rparr>,
        Security_Encryption = \<lparr>Encryption_Key = [], Encryption_Algorithm = ''AES-256-GCM''\<rparr>\<rparr>,
     Metrics = \<lparr>Metrics_Enabled = True, Metrics_Path = ''/metrics'', Metrics_Port = 9090\<rparr>\<rparr>"

text \<open>
  What the decoders of the library are known to do: a value that already has the type of
  the field is taken as it is, and the duration hook parses the duration strings of the
  defaults.
\<close>

definition decodes_typed_values :: "decoders \<Rightarrow> bool" where
  "decodes_typed_values d \<longleftrightarrow>
     (\<forall>s. decodeString d (AString s) = Inr s) \<and>
     (\<forall>n. decodeInt d (AInt n) = Inr n) \<and>
     (\<forall>b. decodeBool d (ABool b) = Inr b) \<and>
     (\<forall>l. decodeStrings d (AStrings l) = Inr l) \<and>
     decodeDuration d (AString ''30s'') = Inr (30 * Second) \<and>
     decodeDuration d (AString ''60s'') = Inr (60 * Second) \<and>
     decodeDuration d (AString ''5m'') = Inr (5 * Minute) \<and>
     decodeDuration d (AString ''15m'') = Inr (15 * Minute) \<and>
     decodeDuration d (AString ''168h'') = Inr (168 * Hour) \<and>
     decodeDuration d (AString ''4h'') = Inr (4 * Hour) \<and>
     decodeDuration d (AString ''1h'') = Inr (1 * Hour) \<and>
     decodeDuration d (AString ''10m'') = Inr (10 * Minute)"

text \<open>
  The instance as \<open>Load\<close> has configured it when it reads the configuration file, and
  the condition that no environment variable with the prefix \<open>BPMS_\<close> is set.
\<close>

definition configuredViper :: Viper where
  "configuredViper =
     setDefaults (AutomaticEnv (SetEnvKeyReplacer (CHR ''.'') (CHR ''_'') (SetEnvPrefix ''BPMS''
       (AddConfigPath ''.'' (AddConfigPath ''./configs'' (SetConfigType ''yaml''
         (SetConfigName ''config'' viper_New)))))))"

definition no_BPMS_environ :: "system \<Rightarrow> bool" where
  "no_BPMS_environ sys \<longleftrightarrow> (\<forall>n. prefix ''BPMS_'' n \<longrightarrow> environ sys n = None)"

subsection \<open>An instance of the decoders\<close>

text \<open>
  One instance of the decoders, for running \<open>Load\<close> on examples: a value of the type of
  the field is taken as it is, a string is parsed where a number or a duration is wanted
  (decimal digits, and decimal digits before one of the units \<open>s\<close>, \<open>m\<close>, \<open>h\<close>), and
  anything else is an error.
\<close>

definition digitVal :: "char \<Rightarrow> nat option" where
  "digitVal c = (let n = of_char c :: nat in if 48 \<le> n \<and> n \<le> 57 then Some (n - 48) else None)"

fun parseDigits :: "nat \<Rightarrow> string \<Rightarrow> nat \<times> string" where
  "parseDigits acc [] = (acc, [])"
| "parseDigits acc (c # cs) =
     (case digitVal c of
        Some n \<Rightarrow> parseDigits (10 * acc + n) cs
      | None \<Rightarrow> (acc, c # cs))"

definition parseInt :: "string \<Rightarrow> error + int" where
  "parseInt s =
     (case parseDigits 0 s of
        (n, rest) \<Rightarrow> if s \<noteq> [] \<and> rest = [] then Inr (int n)
                    else Inl (ErrorString ''invalid syntax''))"

definition parseDuration :: "string \<Rightarrow> error + Duration" where
  "parseDuration s =
     (case parseDigits 0 s of
        (n, unit) \<Rightarrow>
          if length unit = length s then Inl (ErrorString ''invalid duration'')
          else if unit = ''s'' then Inr (int n * Second)
          else if unit = ''m'' then Inr (int n * Minute)
          else if unit = ''h'' then Inr (int n * Hour)
          else Inl (ErrorString ''invalid duration''))"

definition exampleDecoders :: decoders where
  "exampleDecoders =
    \<lparr>decodeString = (\<lambda>x. case x of AString s \<Rightarrow> Inr s
                          | _ \<Rightarrow> Inl (ErrorString ''expected type string'')),
     decodeInt = (\<lambda>x. case x of AInt n \<Rightarrow> Inr n | AString s \<Rightarrow> parseInt s
                          | _ \<Rightarrow> Inl (ErrorString ''expected type int'')),
     decodeBool = (\<lambda>x. case x of ABool b \<Rightarrow> Inr b
                          | _ \<Rightarrow> Inl (ErrorString ''expected type bool'')),
     decodeDuration = (\<lambda>x. case x of AInt n \<Rightarrow> Inr n | AString s \<Rightarrow> parseDuration s
                          | _ \<Rightarrow> Inl (ErrorString ''expected type time.Duration'')),
     decodeStrings = (\<lambda>x. case x of AStrings l \<Rightarrow> Inr l
                          | _ \<Rightarrow> Inl (ErrorString ''expected type []string''))\<rparr>"

text \<open>
  Four systems: no configuration file and no \<open>BPMS_\<close> variable; a file that cannot be
  read; a file whose \<open>server.port\<close> is not a number; no file and a \<open>BPMS_SERVER_PORT\<close>
  that is not a number.
\<close>

definition systemNoFile :: system where
  "systemNoFile = \<lparr>environ = [''HOME'' \<mapsto> ''/root''], readConfigFile = (\<lambda>name type paths. NotFound)\<rparr>"

definition systemUnreadable :: system where
  "systemUnreadable = \<lparr>environ = Map.empty,
     readConfigFile = (\<lambda>name type paths. ReadFailure ''open ./configs/config.yaml: permission denied'')\<rparr>"

definition systemBadFile :: system where
  "systemBadFile = \<lparr>environ = Map.empty,
     readConfigFile = (\<lambda>name type paths. Parsed [''server.port'' \<mapsto> AString ''http''])\<rparr>"

definition systemBadEnv :: system where
  "systemBadEnv = \<lparr>environ = [''BPMS_SERVER_PORT'' \<mapsto> ''http''],
     readConfigFile = (\<lambda>name type paths. NotFound)\<rparr>"

section \<open>Database migrations\<close>

subsection \<open>The database library\<close>

text \<open>
  The migrations work on a database through a \<^verbatim>\<open>*gorm.DB\<close>. The state of the database
  is a value of a type \<open>'db\<close>, and the calls of the library that the migrations make are the
  operations of a \<open>gorm\<close>: each takes the state, and returns the error of the call (or
  none) and the state it leaves. A model passed to \<open>AutoMigrate\<close> or \<open>DropTable\<close> is the
  name of its struct. The \<open>Permission\<close> and \<open>Role\<close> rows carry the fields that the
  migration sets; \<open>FirstOrCreate\<close> takes the row and the name it is looked up by.
\<close>

record MigrationRecord =
  Record_Version :: string
  Record_AppliedAt :: int

record Permission =
  Permission_Name :: string
  Permission_Description :: string
  Permission_Resource :: string
  Permission_Action :: string

record Role =
  Role_Name :: string
  Role_Description :: string
  Role_IsSystem :: bool

type_synonym 'db call = "'db \<Rightarrow> error option \<times> 'db"

record 'db gorm =
  Exec :: "string \<Rightarrow> 'db call"
  AutoMigrate :: "string list \<Rightarrow> 'db call"
  DropTable :: "string list \<Rightarrow> 'db call"
  FirstOrCreate_Permission :: "Permission \<Rightarrow> string \<Rightarrow> 'db call"
  FirstOrCreate_Role :: "Role \<Rightarrow> string \<Rightarrow> 'db call"
  Find_MigrationRecords :: "'db \<Rightarrow> error + MigrationRecord list"
  Create_MigrationRecord :: "MigrationRecord \<Rightarrow> 'db call"

text \<open>\<open>thenE r f\<close>: return the error of the call \<open>r\<close> if it has one, else go on with \<open>f\<close>.\<close>

definition thenE :: "error option \<times> 'db \<Rightarrow> 'db call \<Rightarrow> error option \<times> 'db" where
  "thenE r f = (case r of (Some err, d) \<Rightarrow> (Some err, d) | (None, d) \<Rightarrow> f d)"

text \<open>A \<open>for\<close> loop over a slice that returns the first error of its body.\<close>

fun forEach :: "('a \<Rightarrow> 'db call) \<Rightarrow> 'a list \<Rightarrow> 'db call" where
  "forEach body [] d = (None, d)"
| "forEach body (x # xs) d = thenE (body x d) (forEach body xs)"

subsection \<open>The migrations\<close>

record 'db Migration =
  Version :: string
  Description :: string
  Up :: "'db call"
  Down :: "'db call"

definition migration001Up :: "'db gorm \<Rightarrow> 'db call" where
  \<open>migration001Up g d =
     thenE (Exec g ''CREATE EXTENSION IF NOT EXISTS "uuid-ossp"'' d) (\<lambda>d.
     thenE (forEach (\<lambda>schema. Exec g (''CREATE SCHEMA IF NOT EXISTS '' @ schema))
              [''process_engine'', ''user_management'', ''analytics'', ''audit''] d) (\<lambda>d.
     AutoMigrate g [''User'', ''RefreshToken'', ''FormSchema''] d))\<close>

definition migration001Down :: "'db gorm \<Rightarrow> 'db call" where
  "migration001Down g d = DropTable g [''RefreshToken'', ''FormSchema'', ''User''] d"

definition default_permissions :: "Permission list" where
  "default_permissions = map (\<lambda>(n, d, r, a). \<lparr>Permission_Name = n, Permission_Description = d,
       Permission_Resource = r, Permission_Action = a\<rparr>)
     [(''process:create'', ''Create process definitions'', ''process'', ''create''),
      (''process:read'', ''Read process definitions'', ''process'', ''read''),
      (''process:update'', ''Update process definitions'', ''process'', ''update''),
      (''process:delete'', ''Delete process definitions'', ''process'', ''delete''),
      (''process:start'', ''Start process instances'', ''process'', ''start''),
      (''task:assign'', ''Assign tasks to users'', ''task'', ''assign''),
      (''task:complete'', ''Complete tasks'', ''task'', ''complete''),
      (''task:view'', ''View tasks'', ''task'', ''view''),
      (''task:delegate'', ''Delegate tasks'', ''task'', ''delegate''),
      (''analytics:view'', ''View analytics'', ''analytics'', ''view''),
      (''analytics:export'', ''Export analytics data'', ''analytics'', ''export''),
      (''user:manage'', ''Manage users'', ''user'', ''manage''),
      (''system:config'', ''Configure system'', ''system'', ''config''),
      (''role:manage'', ''Manage roles'', ''role'', ''manage'')]"

definition default_roles :: "Role list" where
  "default_roles = map (\<lambda>(n, d). \<lparr>Role_Name = n, Role_Description = d, Role_IsSystem = True\<rparr>)
     [(''admin'', ''System administrator''),
      (''manager'', ''Department manager''),
      (''user'', ''Regular user''),
      (''process-designer'', ''Process designer''),
      (''analytics-viewer'', ''Analytics viewer'')]"

definition migration002Up :: "'db gorm \<Rightarrow> 'db call" where
  "migration002Up g d =
     thenE (AutoMigrate g [''Permission'', ''Role''] d) (\<lambda>d.
     thenE (forEach (\<lambda>perm. FirstOrCreate_Permission g perm (Permission_Name perm))
              default_permissions d) (\<lambda>d.
     thenE (forEach (\<lambda>role. FirstOrCreate_Role g role (Role_Name role))
              default_roles d) (\<lambda>d.
     (None, d))))"

definition migration002Down :: "'db gorm \<Rightarrow> 'db call" where
  "migration002Down g d = DropTable g [''Role'', ''Permission''] d"

definition migration003Up :: "'db gorm \<Rightarrow> 'db call" where
  "migration003Up g d =
     AutoMigrate g [''ProcessDefinition'', ''ProcessInstance'', ''TaskInstance'', ''BusinessRule''] d"

definition migration003Down :: "'db gorm \<Rightarrow> 'db call" where
  "migration003Down g d =
     DropTable g [''BusinessRule'', ''TaskInstance'', ''ProcessInstance'', ''ProcessDefinition''] d"

definition migration004Up :: "'db gorm \<Rightarrow> 'db call" where
  "migration004Up g d = AutoMigrate g [''AuditLog''] d"

definition migration004Down :: "'db gorm \<Rightarrow> 'db call" where
  "migration004Down g d = DropTable g [''AuditLog''] d"

definition migration005Up :: "'db gorm \<Rightarrow> 'db call" where
  "migration005Up g d =
     thenE (forEach (\<lambda>indexSQL. Exec g indexSQL)
       [''CREATE INDEX IF NOT EXISTS idx_users_email ON users(email)'',
        ''CREATE INDEX IF NOT EXISTS idx_users_is_active ON users(is_active)'',
        ''CREATE INDEX IF NOT EXISTS idx_process_instances_status ON process_instances(status)'',
        ''CREATE INDEX IF NOT EXISTS idx_process_instances_started_at ON process_instances(started_at)'',
        ''CREATE INDEX IF NOT EXISTS idx_task_instances_status ON task_instances(status)'',
        ''CREATE INDEX IF NOT EXISTS idx_task_instances_assignee_id ON task_instances(assignee_id)'',
        ''CREATE INDEX IF NOT EXISTS idx_task_instances_due_date ON task_instances(due_date)'',
        ''CREATE INDEX IF NOT EXISTS idx_audit_logs_timestamp ON audit_logs(timestamp)'',
        ''CREATE INDEX IF NOT EXISTS idx_audit_logs_user_id ON audit_logs(user_id)'',
        ''CREATE INDEX IF NOT EXISTS idx_audit_logs_resource ON audit_logs(resource)'',
        ''CREATE INDEX IF NOT EXISTS idx_refresh_tokens_expires_at ON refresh_tokens(expires_at)'',
        ''CREATE INDEX IF NOT EXISTS idx_refresh_tokens_user_id ON refresh_tokens(user_id)''] d)
       (\<lambda>d. (None, d))"

definition migration005Down :: "'db gorm \<Rightarrow> 'db call" where
  "migration005Down g d =
     thenE (forEach (\<lambda>indexSQL. Exec g indexSQL)
       [''DROP INDEX IF EXISTS idx_users_email'',
        ''DROP INDEX IF EXISTS idx_users_is_active'',
        ''DROP INDEX IF EXISTS idx_process_instances_status'',
        ''DROP INDEX IF EXISTS idx_process_instances_started_at'',
        ''DROP INDEX IF EXISTS idx_task_instances_status'',
        ''DROP INDEX IF EXISTS idx_task_instances_assignee_id'',
        ''DROP INDEX IF EXISTS idx_task_instances_due_date'',
        ''DROP INDEX IF EXISTS idx_audit_logs_timestamp'',
        ''DROP INDEX IF EXISTS idx_audit_logs_user_id'',
        ''DROP INDEX IF EXISTS idx_audit_logs_resource'',
        ''DROP INDEX IF EXISTS idx_refresh_tokens_expires_at'',
        ''DROP INDEX IF EXISTS idx_refresh_tokens_user_id''] d)
       (\<lambda>d. (None, d))"

definition getMigrations :: "'db gorm \<Rightarrow> 'db Migration list" where
  "getMigrations g =
    [\<lparr>Version = ''001_initial_schema'',
      Description = ''Create initial database schema'',
      Up = migration001Up g, Down = migration001Down g\<rparr>,
     \<lparr>Version = ''002_rbac_system'',
      Description = ''Create RBAC (Role-Based Access Control) system'',
      Up = migration002Up g, Down = migration002Down g\<rparr>,
     \<lparr>Version = ''003_process_engine'',
      Description = ''Create process engine tables'',
      Up = migration003Up g, Down = migration003Down g\<rparr>,
     \<lparr>Version = ''004_audit_system'',
      Description = ''Create audit logging system'',
      Up = migration004Up g, Down = migration004Down g\<rparr>,
     \<lparr>Version = ''005_indexes_optimization'',
      Description = ''Add performance indexes'',
      Up = migration005Up g, Down = migration005Down g\<rparr>]"

subsection \<open>The migrator\<close>

text \<open>
  The migrator holds the database and the list of migrations. \<open>Run\<close> returns its error
  (or none), the migrator with the database as the run leaves it, and the lines it has
  written to the log.
\<close>

record 'db Migrator =
  Migrator_db :: 'db
  Migrator_migrations :: "'db Migration list"

definition NewMigrator :: "'db gorm \<Rightarrow> 'db \<Rightarrow> 'db Migrator" where
  "NewMigrator g d = \<lparr>Migrator_db = d, Migrator_migrations = getMigrations g\<rparr>"

definition getAppliedMigrations :: "'db gorm \<Rightarrow> 'db Migrator \<Rightarrow> error + (string \<rightharpoonup> bool)" where
  "getAppliedMigrations g m =
     (case Find_MigrationRecords g (Migrator_db m) of
        Inl err \<Rightarrow> Inl err
      | Inr records \<Rightarrow>
          Inr (foldl (\<lambda>applied record. applied(Record_Version record \<mapsto> True))
                 Map.empty records))"

text \<open>Reading a \<^verbatim>\<open>map[string]bool\<close> at a key it does not hold gives \<open>false\<close>.\<close>

definition index_bool :: "(string \<rightharpoonup> bool) \<Rightarrow> string \<Rightarrow> bool" where
  "index_bool applied k = (case applied k of Some b \<Rightarrow> b | None \<Rightarrow> False)"

fun Run_loop :: "'db gorm \<Rightarrow> (string \<rightharpoonup> bool) \<Rightarrow> 'db Migration list \<Rightarrow> 'db \<Rightarrow> string list
    \<Rightarrow> error option \<times> 'db \<times> string list" where
  "Run_loop g applied [] d log = (None, d, log)"
| "Run_loop g applied (migration # rest) d log =
     (if \<not> index_bool applied (Version migration)
      then
        (let log = log @ [''Running migration '' @ Version migration @ '': ''
                            @ Description migration]
         in (case Up migration d of
               (Some err, d) \<Rightarrow>
                 (Some (Errorf (''migration '' @ Version migration @ '' failed: '') err), d, log)
             | (None, d) \<Rightarrow>
                 (let record = \<lparr>Record_Version = Version migration, Record_AppliedAt = 0\<rparr>
                  in (case Create_MigrationRecord g record d of
                        (Some err, d) \<Rightarrow>
                          (Some (Errorf (''failed to record migration '' @ Version migration
                                           @ '': '') err), d, log)
                      | (None, d) \<Rightarrow>
                          Run_loop g applied rest d
                            (log @ [''Migration '' @ Version migration
                                      @ '' completed successfully''])))))
      else Run_loop g applied rest d log)"

definition Run :: "'db gorm \<Rightarrow> 'db Migrator \<Rightarrow> error option \<times> 'db Migrator \<times> string list" where
  "Run g m =
     (case AutoMigrate g [''MigrationRecord''] (Migrator_db m) of
        (Some err, d) \<Rightarrow>
          (Some (Errorf ''failed to create migration table: '' err), m\<lparr>Migrator_db := d\<rparr>, [])
      | (None, d) \<Rightarrow>
          (case getAppliedMigrations g (m\<lparr>Migrator_db := d\<rparr>) of
             Inl err \<Rightarrow>
               (Some (Errorf ''failed to get applied migrations: '' err),
                m\<lparr>Migrator_db := d\<rparr>, [])
           | Inr applied \<Rightarrow>
               (case Run_loop g applied (Migrator_migrations m) d [] of
                  (Some err, d, log) \<Rightarrow> (Some err, m\<lparr>Migrator_db := d\<rparr>, log)
                | (None, d, log) \<Rightarrow>
                    (None, m\<lparr>Migrator_db := d\<rparr>,
                     log @ [''All migrations completed successfully'']))))"

subsection \<open>What the library does to the migration records\<close>

text \<open>
  \<open>recorded\<close> reads the set of versions in the table \<open>migration_records\<close> off a state of
  the database. The operations keep to it when: \<open>Find\<close> returns the rows of the table;
  \<open>Create\<close> adds the version of its row when it succeeds and adds nothing when it fails;
  and a \<open>CREATE\<close> statement, \<open>AutoMigrate\<close> and \<open>FirstOrCreate\<close> on a permission or a role
  leave the rows of the table as they are.
\<close>

definition tracks_records :: "'db gorm \<Rightarrow> ('db \<Rightarrow> string set) \<Rightarrow> bool" where
  "tracks_records g recorded \<longleftrightarrow>
     (\<forall>d rs. Find_MigrationRecords g d = Inr rs \<longrightarrow> Record_Version ` set rs = recorded d) \<and>
     (\<forall>r d. recorded (snd (Create_MigrationRecord g r d)) =
        (if fst (Create_MigrationRecord g r d) = None
         then insert (Record_Version r) (recorded d) else recorded d)) \<and>
     (\<forall>sql d. prefix ''CREATE '' sql \<longrightarrow> recorded (snd (Exec g sql d)) = recorded d) \<and>
     (\<forall>models d. recorded (snd (AutoMigrate g models d)) = recorded d) \<and>
     (\<forall>p n d. recorded (snd (FirstOrCreate_Permission g p n d)) = recorded d) \<and>
     (\<forall>r n d. recorded (snd (FirstOrCreate_Role g r n d)) = recorded d)"

text \<open>
  The pending migrations of a migrator, in the order of its list; the database after one
  migration has been applied and recorded; the two log lines of a migration.
\<close>

definition pending :: "('db \<Rightarrow> string set) \<Rightarrow> 'db Migrator \<Rightarrow> 'db Migration list" where
  "pending recorded m =
     filter (\<lambda>mig. Version mig \<notin> recorded (Migrator_db m)) (Migrator_migrations m)"

definition apply_migration :: "'db gorm \<Rightarrow> 'db \<Rightarrow> 'db Migration \<Rightarrow> 'db" where
  "apply_migration g d mig =
     snd (Create_MigrationRecord g \<lparr>Record_Version = Version mig, Record_AppliedAt = 0\<rparr>
            (snd (Up mig d)))"

definition migration_log :: "'db Migration \<Rightarrow> string list" where
  "migration_log mig =
     [''Running migration '' @ Version mig @ '': '' @ Description mig,
      ''Migration '' @ Version mig @ '' completed successfully'']"

subsection \<open>A database in memory\<close>

text \<open>
  A small database for running the migrations on examples: the rows of
  \<open>migration_records\<close> and, in order, the changes made to the rest of the database.
  \<open>Create\<close> refuses a row whose version (the primary key) is in the table, and the
  database refuses the statements that \<open>denied\<close> holds for.
\<close>

record memdb =
  mem_records :: "MigrationRecord list"
  mem_changes :: "string list"

definition change :: "string \<Rightarrow> memdb call" where
  "change c d = (None, d\<lparr>mem_changes := mem_changes d @ [c]\<rparr>)"

definition memoryGorm :: "(string \<Rightarrow> bool) \<Rightarrow> memdb gorm" where
  "memoryGorm denied =
    \<lparr>Exec = (\<lambda>sql d. if denied sql then (Some (ErrorString ''permission denied''), d)
                      else change sql d),
     AutoMigrate = (\<lambda>models. forEach (\<lambda>model. change (''AutoMigrate '' @ model)) models),
     DropTable = (\<lambda>models. forEach (\<lambda>model. change (''DropTable '' @ model)) models),
     FirstOrCreate_Permission = (\<lambda>p n. change (''FirstOrCreate permission '' @ n)),
     FirstOrCreate_Role = (\<lambda>r n. change (''FirstOrCreate role '' @ n)),
     Find_MigrationRecords = (\<lambda>d. Inr (mem_records d)),
     Create_MigrationRecord = (\<lambda>r d.
       if Record_Version r \<in> Record_Version ` set (mem_records d)
       then (Some (ErrorString ''duplicate key value violates unique constraint''), d)
       else (None, d\<lparr>mem_records := mem_records d @ [r]\<rparr>))\<rparr>"

definition mem_recorded :: "memdb \<Rightarrow> string set" where
  "mem_recorded d = Record_Version ` set (mem_records d)"

definition emptyDb :: memdb where
  "emptyDb = \<lparr>mem_records = [], mem_changes = []\<rparr>"

definition partlyMigratedDb :: memdb where
  "partlyMigratedDb =
     \<lparr>mem_records = [\<lparr>Record_Version = ''001_initial_schema'', Record_AppliedAt = 1700000000\<rparr>,
                     \<lparr>Record_Version = ''002_rbac_system'', Record_AppliedAt = 1700000001\<rparr>],
      mem_changes = []\<rparr>"

text \<open>
  Two instances: a database that refuses nothing, and one whose user may not create
  extensions.
\<close>

definition healthyGorm :: "memdb gorm" where
  "healthyGorm = memoryGorm (\<lambda>sql. False)"

definition restrictedGorm :: "memdb gorm" where
  "restrictedGorm = memoryGorm (\<lambda>sql. prefix ''CREATE EXTENSION'' sql)"

section \<open>Middleware helper: joinStrings\<close>

text \<open>
  Go source (shared/common/middleware):
  \<^verbatim>\<open>
  func joinStrings(strs []string, sep string) string {
      if len(strs) == 0 { return "" }
      result := strs[0]
      for i := 1; i < len(strs); i++ { result += sep + strs[i] }
      return result
  }
  \<close>
  A Go string is a byte sequence, here a \<open>string\<close>. The loop runs on the index \<open>i\<close>
  and the accumulator \<open>result\<close>; every read \<open>strs[i]\<close> is guarded by \<open>i < len(strs)\<close>.
\<close>

function joinStrings_loop :: "string list \<Rightarrow> string \<Rightarrow> nat \<Rightarrow> string \<Rightarrow> string" where
  "joinStrings_loop strs sep i result =
     (if i < length strs
      then joinStrings_loop strs sep (i + 1) (result @ sep @ strs ! i)
      else result)"
  by pat_completeness auto
termination
  by (relation "measure (\<lambda>(strs, sep, i, result). length strs - i)") auto

declare joinStrings_loop.simps [simp del]

definition joinStrings :: "string list \<Rightarrow> string \<Rightarrow> string" where
  "joinStrings strs sep =
     (if length strs = 0 then ''''
      else joinStrings_loop strs sep 1 (strs ! 0))"

text \<open>
  The reference, written from the documentation of the standard library: \<open>strings.Join\<close>
  concatenates the elements of its first argument to create a single string, the separator
  placed between elements in the result.
\<close>

fun strings_Join :: "string list \<Rightarrow> string \<Rightarrow> string" where
  "strings_Join [] sep = ''''"
| "strings_Join [s] sep = s"
| "strings_Join (s # t # ts) sep = s @ sep @ strings_Join (t # ts) sep"

section \<open>The HTTP server: handlers and routes\<close>

text \<open>
  A gin handler is a Go function \<^verbatim>\<open>func(c *gin.Context)\<close> that answers through
  \<^verbatim>\<open>c.JSON(code, obj)\<close>. Its model maps the request held by the context to the response
  written. Go code reads the system clock as ambient state (\<^verbatim>\<open>time.Now()\<close> in
  \<open>healthCheck\<close>), so a handler also takes the \<open>world\<close> it runs in: the clock, and the
  rows of the database the server is connected to. The handlers are top-level functions of
  the context only, and \<open>setupRoutes\<close> never hands them its \<open>db\<close> argument.
\<close>

record request =
  req_method :: string
  req_path :: string
  req_headers :: "(string \<times> string) list"
  req_body :: string

record Context =
  Request :: request

record world =
  time_Now :: nat
  database :: "(string \<times> string) list"

datatype json = JString string | JTime nat

text \<open>\<^verbatim>\<open>gin.H\<close> is a \<^verbatim>\<open>map[string]any\<close>; it is written as the JSON object of its entries.\<close>

type_synonym H = "(string \<times> json) list"

record response =
  resp_status :: nat
  resp_body :: H

type_synonym HandlerFunc = "world \<Rightarrow> Context \<Rightarrow> response"

definition StatusOK :: nat where
  "StatusOK = 200"

definition JSON :: "nat \<Rightarrow> H \<Rightarrow> response" where
  "JSON code obj = \<lparr>resp_status = code, resp_body = obj\<rparr>"

definition healthCheck :: HandlerFunc where
  "healthCheck w c = JSON StatusOK
     [(''status'', JString ''healthy''),
      (''timestamp'', JTime (time_Now w)),
      (''service'', JString ''ai-bpms-backend''),
      (''version'', JString ''1.0.0'')]"

definition metricsHandler :: HandlerFunc where
  "metricsHandler w c = JSON StatusOK
     [(''message'', JString ''Metrics endpoint - TODO: Implement Prometheus metrics'')]"

text \<open>The Swagger handler comes from a library; only its registration matters here.\<close>

definition swaggerHandler :: HandlerFunc where
  "swaggerHandler w c = JSON StatusOK []"

text \<open>The placeholder handlers, in the order of the source.\<close>

definition loginHandler :: HandlerFunc where
  "loginHandler w c = JSON StatusOK [(''message'', JString ''Login endpoint - TODO: Implement'')]"

definition logoutHandler :: HandlerFunc where
  "logoutHandler w c = JSON StatusOK [(''message'', JString ''Logout endpoint - TODO: Implement'')]"

definition refreshHandler :: HandlerFunc where
  "refreshHandler w c = JSON StatusOK [(''message'', JString ''Refresh endpoint - TODO: Implement'')]"

definition profileHandler :: HandlerFunc where
  "profileHandler w c = JSON StatusOK [(''message'', JString ''Profile endpoint - TODO: Implement'')]"

definition listProcesses :: HandlerFunc where
  "listProcesses w c = JSON StatusOK [(''message'', JString ''List processes - TODO: Implement'')]"

definition createProcess :: HandlerFunc where
  "createProcess w c = JSON StatusOK [(''message'', JString ''Create process - TODO: Implement'')]"

definition getProcess :: HandlerFunc where
  "getProcess w c = JSON StatusOK [(''message'', JString ''Get process - TODO: Implement'')]"

definition updateProcess :: HandlerFunc where
  "updateProcess w c = JSON StatusOK [(''message'', JString ''Update process - TODO: Implement'')]"

definition deleteProcess :: HandlerFunc where
  "deleteProcess w c = JSON StatusOK [(''message'', JString ''Delete process - TODO: Implement'')]"

definition listInstances :: HandlerFunc where
  "listInstances w c = JSON StatusOK [(''message'', JString ''List instances - TODO: Implement'')]"

definition startInstance :: HandlerFunc where
  "startInstance w c = JSON StatusOK [(''message'', JString ''Start instance - TODO: Implement'')]"

definition getInstance :: HandlerFunc where
  "getInstance w c = JSON StatusOK [(''message'', JString ''Get instance - TODO: Implement'')]"

definition updateInstance :: HandlerFunc where
  "updateInstance w c = JSON StatusOK [(''message'', JString ''Update instance - TODO: Implement'')]"

definition cancelInstance :: HandlerFunc where
  "cancelInstance w c = JSON StatusOK [(''message'', JString ''Cancel instance - TODO: Implement'')]"

definition listTasks :: HandlerFunc where
  "listTasks w c = JSON StatusOK [(''message'', JString ''List tasks - TODO: Implement'')]"

definition getTask :: HandlerFunc where
  "getTask w c = JSON StatusOK [(''message'', JString ''Get task - TODO: Implement'')]"

definition completeTask :: HandlerFunc where
  "completeTask w c = JSON StatusOK [(''message'', JString ''Complete task - TODO: Implement'')]"

definition assignTask :: HandlerFunc where
  "assignTask w c = JSON StatusOK [(''message'', JString ''Assign task - TODO: Implement'')]"

definition getFormSchema :: HandlerFunc where
  "getFormSchema w c = JSON StatusOK [(''message'', JString ''Get form schema - TODO: Implement'')]"

definition validateForm :: HandlerFunc where
  "validateForm w c = JSON StatusOK [(''message'', JString ''Validate form - TODO: Implement'')]"

definition listRules :: HandlerFunc where
  "listRules w c = JSON StatusOK [(''message'', JString ''List rules - TODO: Implement'')]"

definition createRule :: HandlerFunc where
  "createRule w c = JSON StatusOK [(''message'', JString ''Create rule - TODO: Implement'')]"

definition updateRule :: HandlerFunc where
  "updateRule w c = JSON StatusOK [(''message'', JString ''Update rule - TODO: Implement'')]"

definition evaluateRule :: HandlerFunc where
  "evaluateRule w c = JSON StatusOK [(''message'', JString ''Evaluate rule - TODO: Implement'')]"

definition aiGenerateProcess :: HandlerFunc where
  "aiGenerateProcess w c = JSON StatusOK [(''message'', JString ''AI generate process - TODO: Implement'')]"

definition aiGenerateRules :: HandlerFunc where
  "aiGenerateRules w c = JSON StatusOK [(''message'', JString ''AI generate rules - TODO: Implement'')]"

definition aiOptimizeProcess :: HandlerFunc where
  "aiOptimizeProcess w c = JSON StatusOK [(''message'', JString ''AI optimize process - TODO: Implement'')]"

definition getDashboard :: HandlerFunc where
  "getDashboard w c = JSON StatusOK [(''message'', JString ''Get dashboard - TODO: Implement'')]"

definition getProcessAnalytics :: HandlerFunc where
  "getProcessAnalytics w c = JSON StatusOK [(''message'', JString ''Get process analytics - TODO: Implement'')]"

definition getInstanceAnalytics :: HandlerFunc where
  "getInstanceAnalytics w c = JSON StatusOK [(''message'', JString ''Get instance analytics - TODO: Implement'')]"

definition listUsers :: HandlerFunc where
  "listUsers w c = JSON StatusOK [(''message'', JString ''List users - TODO: Implement'')]"

definition createUser :: HandlerFunc where
  "createUser w c = JSON StatusOK [(''message'', JString ''Create user - TODO: Implement'')]"

definition updateUser :: HandlerFunc where
  "updateUser w c = JSON StatusOK [(''message'', JString ''Update user - TODO: Implement'')]"

definition deleteUser :: HandlerFunc where
  "deleteUser w c = JSON StatusOK [(''message'', JString ''Delete user - TODO: Implement'')]"

definition updateUserRoles :: HandlerFunc where
  "updateUserRoles w c = JSON StatusOK [(''message'', JString ''Update user roles - TODO: Implement'')]"

definition wsNotifications :: HandlerFunc where
  "wsNotifications w c = JSON StatusOK [(''message'', JString ''WebSocket notifications - TODO: Implement'')]"

definition wsTasks :: HandlerFunc where
  "wsTasks w c = JSON StatusOK [(''message'', JString ''WebSocket tasks - TODO: Implement'')]"

text \<open>
  A registered route: the HTTP method, the base path of the router group it was registered
  on, the full path and the handler. \<open>Group\<close> extends
  the base path of a router group and \<open>handle\<close> registers a route under it; gin joins
  the base path and the relative path, which for the paths of \<open>setupRoutes\<close> (no empty
  segment, no trailing slash, no dot) is their concatenation.
\<close>

record route =
  route_method :: string
  route_basePath :: string
  route_path :: string
  route_handler :: HandlerFunc

definition Group :: "string \<Rightarrow> string \<Rightarrow> string" where
  "Group basePath relativePath = basePath @ relativePath"

definition handle :: "string \<Rightarrow> string \<Rightarrow> string \<Rightarrow> HandlerFunc \<Rightarrow> route" where
  "handle httpMethod basePath relativePath h =
     \<lparr>route_method = httpMethod, route_basePath = basePath,
      route_path = basePath @ relativePath, route_handler = h\<rparr>"

abbreviation GET :: "string \<Rightarrow> string \<Rightarrow> HandlerFunc \<Rightarrow> route" where
  "GET \<equiv> handle ''GET''"

abbreviation POST :: "string \<Rightarrow> string \<Rightarrow> HandlerFunc \<Rightarrow> route" where
  "POST \<equiv> handle ''POST''"

abbreviation PUT :: "string \<Rightarrow> string \<Rightarrow> HandlerFunc \<Rightarrow> route" where
  "PUT \<equiv> handle ''PUT''"

abbreviation DELETE :: "string \<Rightarrow> string \<Rightarrow> HandlerFunc \<Rightarrow> route" where
  "DELETE \<equiv> handle ''DELETE''"

text \<open>
  \<open>setupRoutes\<close> registers its routes on the router in the order of the source; the
  result is the list of routes added. The metrics route is registered only when the
  configuration enables it. The \<open>db\<close> argument is unused, as in the source.
\<close>

definition setupRoutes :: "Config \<Rightarrow> 'db \<Rightarrow> route list" where
  "setupRoutes cfg db =
    (let router = [];
         v1 = Group router ''/api/v1'';
         auth = Group v1 ''/auth'';
         processes = Group v1 ''/processes'';
         instances = Group v1 ''/instances'';
         tasks = Group v1 ''/tasks'';
         forms = Group v1 ''/forms'';
         rules = Group v1 ''/rules'';
         ai = Group v1 ''/ai'';
         analytics = Group v1 ''/analytics'';
         admin = Group v1 ''/admin''
     in
       [GET router ''/health'' healthCheck] @
       (if Metrics_Enabled (Metrics cfg)
        then [GET router (Metrics_Path (Metrics cfg)) metricsHandler] else []) @
       [GET router ''/swagger/*any'' swaggerHandler,
        POST auth ''/login'' loginHandler,
        POST auth ''/logout'' logoutHandler,
        POST auth ''/refresh'' refreshHandler,
        GET auth ''/profile'' profileHandler,
        GET processes [] listProcesses,
        POST processes [] createProcess,
        GET processes ''/:id'' getProcess,
        PUT processes ''/:id'' updateProcess,
        DELETE processes ''/:id'' deleteProcess,
        GET instances [] listInstances,
        POST instances [] startInstance,
        GET instances ''/:id'' getInstance,
        PUT instances ''/:id'' updateInstance,
        DELETE instances ''/:id'' cancelInstance,
        GET tasks [] listTasks,
        GET tasks ''/:id'' getTask,
        POST tasks ''/:id/complete'' completeTask,
        POST tasks ''/:id/assign'' assignTask,
        GET forms ''/schema/:id'' getFormSchema,
        POST forms ''/validate'' validateForm,
        GET rules [] listRules,
        POST rules [] createRule,
        PUT rules ''/:id'' updateRule,
        POST rules ''/evaluate'' evaluateRule,
        POST ai ''/process'' aiGenerateProcess,
        POST ai ''/rules'' aiGenerateRules,
        POST ai ''/optimize'' aiOptimizeProcess,
        GET analytics ''/dashboard'' getDashboard,
        GET analytics ''/processes'' getProcessAnalytics,
        GET analytics ''/instances'' getInstanceAnalytics,
        GET admin ''/users'' listUsers,
        POST admin ''/users'' createUser,
        PUT admin ''/users/:id'' updateUser,
        DELETE admin ''/users/:id'' deleteUser,
        PUT admin ''/users/:id/roles'' updateUserRoles,
        GET router ''/ws/notifications'' wsNotifications,
        GET router ''/ws/tasks'' wsTasks])"

text \<open>
  A placeholder response: status 200 and a JSON object whose only entry is a
  \<open>message\<close> that ends in \<open>TODO: Implement\<close>.
\<close>

definition is_placeholder :: "response \<Rightarrow> bool" where
  "is_placeholder r \<longleftrightarrow>
     resp_status r = 200 \<and>
     (case resp_body r of
        [(k, JString m)] \<Rightarrow> k = ''message'' \<and> suffix ''TODO: Implement'' m
      | _ \<Rightarrow> False)"

section \<open>The process and task engine of the specification\<close>

text \<open>
  The source has no engine: its handlers are placeholders, and of the engine's data it
  declares only the database models. The definitions of this section are therefore written
  from the specification (sections 3, 4.1, 4.3, 4.4 and 7), not from code.
\<close>

text \<open>
  Modelled from the spec: the error taxonomy of section 7, which the source does not
  declare. An operation that fails returns its error and the state it was given: these
  errors are returned to the caller with no state mutation.
\<close>

datatype engine_error =
    ValidationError
  | NotFoundError
  | EvaluationError
  | UnroutableStepError
  | ConflictError
  | ForbiddenError
  | InvalidStateError

subsection \<open>The process definition store\<close>

text \<open>
  Modelled from the spec: the data of a process definition (section 3). The source has no
  step graph; its \<open>ProcessDefinition\<close> model keeps a BPMN document as text. A definition
  has a key, a version, its steps in order (each a task, a gateway or an end, one of them
  marked as the start), its transition rules (per edge an expression and a target step)
  and its variable schema.
\<close>

datatype step_type = Task | Gateway | End

record step =
  step_id :: string
  step_type :: step_type
  step_start :: bool

record transition =
  transition_source :: string
  transition_expression :: string
  transition_target :: string

record ProcessDefinition =
  definition_key :: string
  definition_version :: nat
  definition_steps :: "step list"
  definition_transitions :: "transition list"
  definition_variables :: "(string \<times> string) list"

text \<open>
  Modelled from the spec: the graph invariants that \<open>publish\<close> checks (sections 3, 4.1
  and 8), which the source does not implement. Exactly one step is marked start; every
  step that is not an end has an outgoing transition; every transition's target is a
  step; and no step is unreachable from the start. The steps reached are collected by
  following the transitions as many times as there are steps.
\<close>

definition step_ids :: "ProcessDefinition \<Rightarrow> string list" where
  "step_ids d = map step_id (definition_steps d)"

definition start_steps :: "ProcessDefinition \<Rightarrow> string list" where
  "start_steps d = map step_id (filter step_start (definition_steps d))"

definition successors :: "ProcessDefinition \<Rightarrow> string list \<Rightarrow> string list" where
  "successors d from =
     map transition_target
       (filter (\<lambda>t. transition_source t \<in> set from) (definition_transitions d))"

fun reached :: "ProcessDefinition \<Rightarrow> nat \<Rightarrow> string list \<Rightarrow> string list" where
  "reached d 0 seen = seen"
| "reached d (Suc n) seen = reached d n (remdups (seen @ successors d seen))"

definition valid_graph :: "ProcessDefinition \<Rightarrow> bool" where
  "valid_graph d \<longleftrightarrow>
     length (start_steps d) = 1 \<and>
     list_all (\<lambda>s. step_type s \<noteq> End \<longrightarrow>
                 list_ex (\<lambda>t. transition_source t = step_id s) (definition_transitions d))
       (definition_steps d) \<and>
     list_all (\<lambda>t. transition_target t \<in> set (step_ids d)) (definition_transitions d) \<and>
     list_all (\<lambda>s. step_id s \<in> set (reached d (length (definition_steps d)) (start_steps d)))
       (definition_steps d)"

text \<open>
  Modelled from the spec: the store and its operations \<open>publish\<close> and \<open>get\<close> (section
  4.1), which the source does not implement (its handlers for processes are placeholders).
  The store holds the published definitions by key and version, in the order of their
  publication. \<open>publish\<close> fails with \<open>ValidationError\<close> on an invalid graph and persists
  nothing then; otherwise the definition gets the next version of its key (versions are
  monotonic per key and start at 1) and is added to the store. \<open>get\<close> returns the
  version asked for, or the highest published version of the key when none is given, and
  fails with \<open>NotFoundError\<close> when there is none.
\<close>

type_synonym store = "((string \<times> nat) \<times> ProcessDefinition) list"

definition versions_of :: "store \<Rightarrow> string \<Rightarrow> nat list" where
  "versions_of st k = map (snd \<circ> fst) (filter (\<lambda>e. fst (fst e) = k) st)"

definition highest_version :: "store \<Rightarrow> string \<Rightarrow> nat" where
  "highest_version st k = fold max (versions_of st k) 0"

definition publish :: "store \<Rightarrow> ProcessDefinition \<Rightarrow> engine_error + ((string \<times> nat) \<times> store)" where
  "publish st d =
     (if \<not> valid_graph d then Inl ValidationError
      else
        (let k = definition_key d;
             v = Suc (highest_version st k)
         in Inr ((k, v), st @ [((k, v), d\<lparr>definition_version := v\<rparr>)])))"

definition get :: "store \<Rightarrow> string \<Rightarrow> nat option \<Rightarrow> engine_error + ProcessDefinition" where
  "get st k version =
     (let v = (case version of Some v \<Rightarrow> v | None \<Rightarrow> highest_version st k)
      in case map_of st (k, v) of
           None \<Rightarrow> Inl NotFoundError
         | Some d \<Rightarrow> Inr d)"

text \<open>The store after a sequence of publish requests; a request that fails changes nothing.\<close>

fun publish_all :: "store \<Rightarrow> ProcessDefinition list \<Rightarrow> store" where
  "publish_all st [] = st"
| "publish_all st (d # ds) =
     (case publish st d of
        Inl err \<Rightarrow> publish_all st ds
      | Inr (kv, st') \<Rightarrow> publish_all st' ds)"

subsection \<open>Process instances and task instances\<close>

text \<open>
  Modelled from the spec: the data of a process instance and of a task instance (section
  3). The source declares database models of the same names, with a status kept as text
  and no set of current steps, and no code that changes them. A value of a variable and
  the form data are opaque to the operations below and kept as text; the times are those
  of a clock that the caller reads.
\<close>

datatype instance_status = Running | InstanceCompleted | InstanceCancelled | Failed

datatype task_status = Created | Assigned | TaskCompleted | TaskCancelled

record ProcessInstance =
  instance_id :: string
  instance_definition :: "string \<times> nat"
  instance_status :: instance_status
  instance_current_steps :: "string set"
  instance_variables :: "string \<rightharpoonup> string"
  instance_started_at :: nat
  instance_ended_at :: "nat option"

record TaskInstance =
  task_id :: string
  task_instance :: string
  task_step :: string
  task_status :: task_status
  task_assignee :: "string option"
  task_candidate_group :: "string option"
  task_form_data :: string
  task_created_at :: nat
  task_assigned_at :: "nat option"
  task_completed_at :: "nat option"

record engine =
  instances :: "string \<rightharpoonup> ProcessInstance"
  tasks :: "string \<rightharpoonup> TaskInstance"

subsection \<open>Claiming a task\<close>

text \<open>
  Modelled from the spec: \<open>claim(taskId, userId)\<close> of the task assignment component
  (section 4.4), which the source does not implement (it has no claim handler, and its
  task handlers are placeholders). A task in state Created becomes Assigned to the user.
  When another user has the task, the claim fails with \<open>ConflictError\<close>; the same user
  claiming again is a retry and succeeds with no change (section 7). An unknown task is a
  \<open>NotFoundError\<close>, and a completed or cancelled task is in an incompatible state.
\<close>

definition claim :: "nat \<Rightarrow> engine \<Rightarrow> string \<Rightarrow> string \<Rightarrow> engine_error option \<times> engine" where
  "claim now s taskId userId =
     (case tasks s taskId of
        None \<Rightarrow> (Some NotFoundError, s)
      | Some t \<Rightarrow>
          (case task_status t of
             Created \<Rightarrow>
               (None, s\<lparr>tasks := (tasks s)(taskId \<mapsto>
                  t\<lparr>task_status := Assigned, task_assignee := Some userId,
                    task_assigned_at := Some now\<rparr>)\<rparr>)
           | Assigned \<Rightarrow>
               if task_assignee t = Some userId then (None, s) else (Some ConflictError, s)
           | TaskCompleted \<Rightarrow> (Some InvalidStateError, s)
           | TaskCancelled \<Rightarrow> (Some InvalidStateError, s)))"

subsection \<open>Cancelling an instance\<close>

text \<open>
  Modelled from the spec: \<open>cancel(instanceId)\<close> of the execution engine (section 4.3),
  which the source does not implement (its handler for cancelling an instance is a
  placeholder). A Running instance is moved to Cancelled and all its open tasks (Created
  or Assigned) are cancelled; by the invariant of section 3 a cancelled instance has no
  current step, and it has ended. Cancelling an instance that is already terminal is a
  no-op and not an error. An unknown instance is a \<open>NotFoundError\<close>.
\<close>

definition cancel_task :: "string \<Rightarrow> TaskInstance \<Rightarrow> TaskInstance" where
  "cancel_task instanceId t =
     (if task_instance t = instanceId \<and> (task_status t = Created \<or> task_status t = Assigned)
      then t\<lparr>task_status := TaskCancelled\<rparr> else t)"

definition cancel :: "nat \<Rightarrow> engine \<Rightarrow> string \<Rightarrow> engine_error option \<times> engine" where
  "cancel now s instanceId =
     (case instances s instanceId of
        None \<Rightarrow> (Some NotFoundError, s)
      | Some i \<Rightarrow>
          if instance_status i = Running
          then (None,
                s\<lparr>instances := (instances s)(instanceId \<mapsto>
                     i\<lparr>instance_status := InstanceCancelled, instance_current_steps := {},
                       instance_ended_at := Some now\<rparr>),
                  tasks := (\<lambda>taskId. map_option (cancel_task instanceId) (tasks s taskId))\<rparr>)
          else (None, s))"


subsection \<open>Example states of the engine\<close>

definition leaveApproval :: ProcessDefinition where
  "leaveApproval =
     \<lparr>definition_key = ''leave-approval'', definition_version = 0,
      definition_steps =
        [\<lparr>step_id = ''manager-review'', step_type = Task, step_start = True\<rparr>,
         \<lparr>step_id = ''decision'', step_type = Gateway, step_start = False\<rparr>,
         \<lparr>step_id = ''end_approved'', step_type = End, step_start = False\<rparr>,
         \<lparr>step_id = ''end_rejected'', step_type = End, step_start = False\<rparr>],
      definition_transitions =
        [\<lparr>transition_source = ''manager-review'', transition_expression = ''true'',
          transition_target = ''decision''\<rparr>,
         \<lparr>transition_source = ''decision'', transition_expression = ''approved==true'',
          transition_target = ''end_approved''\<rparr>,
         \<lparr>transition_source = ''decision'', transition_expression = ''else'',
          transition_target = ''end_rejected''\<rparr>],
      definition_variables = [(''approved'', ''bool'')]\<rparr>"

definition reviewTask :: TaskInstance where
  "reviewTask =
     \<lparr>task_id = ''task-1'', task_instance = ''instance-1'', task_step = ''manager-review'',
      task_status = Created, task_assignee = None, task_candidate_group = Some ''managers'',
      task_form_data = [], task_created_at = 10, task_assigned_at = None,
      task_completed_at = None\<rparr>"

definition runningEngine :: engine where
  "runningEngine =
     \<lparr>instances = [''instance-1'' \<mapsto>
        \<lparr>instance_id = ''instance-1'', instance_definition = (''leave-approval'', 1),
         instance_status = Running, instance_current_steps = {''manager-review''},
         instance_variables = Map.empty, instance_started_at = 10,
         instance_ended_at = None\<rparr>],
      tasks = [''task-1'' \<mapsto> reviewTask]\<rparr>"

definition completedEngine :: engine where
  "completedEngine =
     \<lparr>instances = [''instance-1'' \<mapsto>
        \<lparr>instance_id = ''instance-1'', instance_definition = (''leave-approval'', 1),
         instance_status = InstanceCompleted, instance_current_steps = {},
         instance_variables = [''approved'' \<mapsto> ''true''], instance_started_at = 10,
         instance_ended_at = Some 20\<rparr>],
      tasks = [''task-1'' \<mapsto> reviewTask\<lparr>task_status := TaskCompleted,
        task_assignee := Some ''alice'', task_assigned_at := Some 12,
        task_completed_at := Some 20\<rparr>]\<rparr>"

section \<open>Properties of joinStrings\<close>

lemma strings_Join_snoc:
  "xs \<noteq> [] \<Longrightarrow> strings_Join (xs @ [y]) sep = strings_Join xs sep @ sep @ y"
  by (induction xs sep rule: strings_Join.induct) simp_all

lemma joinStrings_loop_take:
  assumes "0 < i" and "i \<le> length strs"
  shows "joinStrings_loop strs sep i (strings_Join (take i strs) sep) = strings_Join strs sep"
  using assms
proof (induction "length strs - i" arbitrary: i)
  case 0
  then have "take i strs = strs" by simp
  with 0 show ?case by (simp add: joinStrings_loop.simps)
next
  case (Suc n)
  then have lt: "i < length strs" by simp
  have nonempty: "take i strs \<noteq> []" using Suc.prems lt by auto
  have step: "strings_Join (take (i + 1) strs) sep
                = strings_Join (take i strs) sep @ sep @ strs ! i"
    using lt nonempty by (simp add: take_Suc_conv_app_nth strings_Join_snoc)
  have "joinStrings_loop strs sep (i + 1) (strings_Join (take (i + 1) strs) sep)
          = strings_Join strs sep"
    using Suc.hyps(1) [of "i + 1"] Suc.hyps(2) lt by simp
  then show ?case
    using lt step by (subst joinStrings_loop.simps) simp
qed

text \<open>
  Claim C10. \<open>joinStrings strs sep\<close> equals the standard library reference
  \<open>strings.Join\<close> for every slice \<open>strs\<close> and every separator \<open>sep\<close>: the empty
  string for the empty slice, and otherwise the elements in order with \<open>sep\<close> between
  each adjacent pair.
\<close>

theorem joinStrings_eq_strings_Join:
  "joinStrings strs sep = strings_Join strs sep"
proof (cases strs)
  case Nil
  then show ?thesis by (simp add: joinStrings_def)
next
  case (Cons s ss)
  have "joinStrings_loop strs sep 1 (strings_Join (take 1 strs) sep) = strings_Join strs sep"
    using Cons by (intro joinStrings_loop_take) simp_all
  with Cons show ?thesis by (simp add: joinStrings_def)
qed

section \<open>Properties of Load\<close>

lemma foldl_SetDefault_fields:
  "configName (foldl (\<lambda>v (k, x). SetDefault k x v) v kvs) = configName v"
  "configType (foldl (\<lambda>v (k, x). SetDefault k x v) v kvs) = configType v"
  "configPaths (foldl (\<lambda>v (k, x). SetDefault k x v) v kvs) = configPaths v"
  "envPrefix (foldl (\<lambda>v (k, x). SetDefault k x v) v kvs) = envPrefix v"
  "envKeyReplacer (foldl (\<lambda>v (k, x). SetDefault k x v) v kvs) = envKeyReplacer v"
  "automaticEnvApplied (foldl (\<lambda>v (k, x). SetDefault k x v) v kvs) = automaticEnvApplied v"
  "config (foldl (\<lambda>v (k, x). SetDefault k x v) v kvs) = config v"
  by (induction kvs arbitrary: v; simp add: SetDefault_def split: prod.splits)+

lemma foldl_SetDefault_defaults:
  "defaults (foldl (\<lambda>v (k, x). SetDefault k x v) v kvs) = defaults v ++ map_of (rev kvs)"
  by (induction kvs arbitrary: v) (simp_all add: SetDefault_def split: prod.splits)

lemma configuredViper_fields:
  "configName configuredViper = ''config''"
  "configType configuredViper = ''yaml''"
  "configPaths configuredViper = [''./configs'', ''.'']"
  "envPrefix configuredViper = ''BPMS''"
  "envKeyReplacer configuredViper = Some (CHR ''.'', CHR ''_'')"
  "automaticEnvApplied configuredViper = True"
  "config configuredViper = Map.empty"
  unfolding configuredViper_def setDefaults_def foldl_SetDefault_fields
  by (simp_all add: AutomaticEnv_def SetEnvKeyReplacer_def SetEnvPrefix_def AddConfigPath_def
      SetConfigType_def SetConfigName_def viper_New_def)

text \<open>The defaults that \<open>setDefaults\<close> leaves, the last call for a key first.\<close>

lemma defaults_configured:
  "defaults configuredViper = map_of
     [(''metrics.port'', AInt 9090),
      (''metrics.path'', AString ''/metrics''),
      (''metrics.enabled'', ABool True),
      (''security.encryption.algorithm'', AString ''AES-256-GCM''),
      (''security.cors.allowed_headers'', AStrings [''*'']),
      (''security.cors.allowed_methods'', AStrings [''GET'', ''POST'', ''PUT'', ''DELETE'', ''OPTIONS'']),
      (''security.cors.allowed_origins'', AStrings [''*'']),
      (''security.rate_limit.burst'', AInt 200),
      (''security.rate_limit.rps'', AInt 100),
      (''security.rate_limit.enabled'', ABool True),
      (''cache.strategy'', AString ''lru''),
      (''cache.max_size'', AInt 1000),
      (''cache.cleanup_interval'', AString ''10m''),
      (''cache.ttl'', AString ''1h''),
      (''logging.output'', AString ''stdout''),
      (''logging.format'', AString ''json''),
      (''logging.level'', AString ''info''),
      (''ai.openai.model'', AString ''gpt-4''),
      (''ai.openai.base_url'', AString ''https://api.openai.com/v1''),
      (''redis.pool_size'', AInt 10),
      (''redis.db'', AInt 0),
      (''redis.port'', AInt 6379),
      (''redis.host'', AString ''localhost''),
      (''nats.client_id'', AString ''bpms-client''),
      (''nats.cluster_id'', AString ''bpms-cluster''),
      (''nats.url'', AString ''nats://localhost:4222''),
      (''auth.security.max_concurrent_sessions'', AInt 3),
      (''auth.security.session_timeout'', AString ''4h''),
      (''auth.built_in.enabled'', ABool True),
      (''auth.jwt.audience'', AString ''ai-bpms-users''),
      (''auth.jwt.issuer'', AString ''ai-bpms''),
      (''auth.jwt.refresh_token_duration'', AString ''168h''),
      (''auth.jwt.access_token_duration'', AString ''15m''),
      (''auth.jwt.secret'', AString ''change-me-in-production''),
      (''auth.provider'', AString ''jwt''),
      (''database.max_lifetime'', AString ''5m''),
      (''database.max_idle_conns'', AInt 10),
      (''database.max_open_conns'', AInt 25),
      (''database.sslmode'', AString ''disable''),
      (''database.dbname'', AString ''ai_bpms''),
      (''database.password'', AString ''bpms_pass''),
      (''database.user'', AString ''bpms_user''),
      (''database.port'', AInt 5432),
      (''database.host'', AString ''localhost''),
      (''server.tls.enabled'', ABool False),
      (''server.idle_timeout'', AString ''60s''),
      (''server.write_timeout'', AString ''30s''),
      (''server.read_timeout'', AString ''30s''),
      (''server.port'', AInt 8081),
      (''server.host'', AString ''localhost'')]"
  unfolding configuredViper_def setDefaults_def foldl_SetDefault_defaults
  by (simp add: AutomaticEnv_def SetEnvKeyReplacer_def SetEnvPrefix_def AddConfigPath_def
      SetConfigType_def SetConfigName_def viper_New_def)

text \<open>The default of every key that \<open>Unmarshal\<close> reads, struct by struct.\<close>

lemma defaults_lookup:
  "defaults configuredViper ''server.tls.enabled'' = Some (ABool False)"
  "defaults configuredViper ''server.tls.cert_file'' = None"
  "defaults configuredViper ''server.tls.key_file'' = None"
  "defaults configuredViper ''server.host'' = Some (AString ''localhost'')"
  "defaults configuredViper ''server.port'' = Some (AInt 8081)"
  "defaults configuredViper ''server.read_timeout'' = Some (AString ''30s'')"
  "defaults configuredViper ''server.write_timeout'' = Some (AString ''30s'')"
  "defaults configuredViper ''server.idle_timeout'' = Some (AString ''60s'')"
  "defaults configuredViper ''database.host'' = Some (AString ''localhost'')"
  "defaults configuredViper ''database.port'' = Some (AInt 5432)"
  "defaults configuredViper ''database.user'' = Some (AString ''bpms_user'')"
  "defaults configuredViper ''database.password'' = Some (AString ''bpms_pass'')"
  "defaults configuredViper ''database.dbname'' = Some (AString ''ai_bpms'')"
  "defaults configuredViper ''database.sslmode'' = Some (AString ''disable'')"
  "defaults configuredViper ''database.max_open_conns'' = Some (AInt 25)"
  "defaults configuredViper ''database.max_idle_conns'' = Some (AInt 10)"
  "defaults configuredViper ''database.max_lifetime'' = Some (AString ''5m'')"
  "defaults configuredViper ''auth.jwt.secret'' = Some (AString ''change-me-in-production'')"
  "defaults configuredViper ''auth.jwt.access_token_duration'' = Some (AString ''15m'')"
  "defaults configuredViper ''auth.jwt.refresh_token_duration'' = Some (AString ''168h'')"
  "defaults configuredViper ''auth.jwt.issuer'' = Some (AString ''ai-bpms'')"
  "defaults configuredViper ''auth.jwt.audience'' = Some (AString ''ai-bpms-users'')"
  "defaults configuredViper ''auth.keycloak.base_url'' = None"
  "defaults configuredViper ''auth.keycloak.realm'' = None"
  "defaults configuredViper ''auth.keycloak.client_id'' = None"
  "defaults configuredViper ''auth.keycloak.client_secret'' = None"
  "defaults configuredViper ''auth.oidc.provider'' = None"
  "defaults configuredViper ''auth.oidc.client_id'' = None"
  "defaults configuredViper ''auth.oidc.client_secret'' = None"
  "defaults configuredViper ''auth.oidc.domain'' = None"
  "defaults configuredViper ''auth.oidc.audience'' = None"
  "defaults configuredViper ''auth.built_in.enabled'' = Some (ABool True)"
  "defaults configuredViper ''auth.built_in.require_otp'' = None"
  "defaults configuredViper ''auth.built_in.passwordless_only'' = None"
  "defaults configuredViper ''auth.security.require_mfa'' = None"
  "defaults configuredViper ''auth.security.session_timeout'' = Some (AString ''4h'')"
  "defaults configuredViper ''auth.security.max_concurrent_sessions'' = Some (AInt 3)"
  "defaults configuredViper ''auth.security.ip_allowlist'' = None"
  "defaults configuredViper ''auth.provider'' = Some (AString ''jwt'')"
  "defaults configuredViper ''nats.url'' = Some (AString ''nats://localhost:4222'')"
  "defaults configuredViper ''nats.cluster_id'' = Some (AString ''bpms-cluster'')"
  "defaults configuredViper ''nats.client_id'' = Some (AString ''bpms-client'')"
  "defaults configuredViper ''redis.host'' = Some (AString ''localhost'')"
  "defaults configuredViper ''redis.port'' = Some (AInt 6379)"
  "defaults configuredViper ''redis.password'' = None"
  "defaults configuredViper ''redis.db'' = Some (AInt 0)"
  "defaults configuredViper ''redis.pool_size'' = Some (AInt 10)"
  "defaults configuredViper ''ai.openai.api_key'' = None"
  "defaults configuredViper ''ai.openai.base_url'' = Some (AString ''https://api.openai.com/v1'')"
  "defaults configuredViper ''ai.openai.model'' = Some (AString ''gpt-4'')"
  "defaults configuredViper ''ai.custom.endpoint'' = None"
  "defaults configuredViper ''ai.custom.api_key'' = None"
  "defaults configuredViper ''logging.level'' = Some (AString ''info'')"
  "defaults configuredViper ''logging.format'' = Some (AString ''json'')"
  "defaults configuredViper ''logging.output'' = Some (AString ''stdout'')"
  "defaults configuredViper ''logging.file'' = None"
  "defaults configuredViper ''cache.ttl'' = Some (AString ''1h'')"
  "defaults configuredViper ''cache.cleanup_interval'' = Some (AString ''10m'')"
  "defaults configuredViper ''cache.max_size'' = Some (AInt 1000)"
  "defaults configuredViper ''cache.strategy'' = Some (AString ''lru'')"
  "defaults configuredViper ''security.rate_limit.enabled'' = Some (ABool True)"
  "defaults configuredViper ''security.rate_limit.rps'' = Some (AInt 100)"
  "defaults configuredViper ''security.rate_limit.burst'' = Some (AInt 200)"
  "defaults configuredViper ''security.cors.allowed_origins'' = Some (AStrings [''*''])"
  "defaults configuredViper ''security.cors.allowed_methods'' = Some (AStrings [''GET'', ''POST'', ''PUT'', ''DELETE'', ''OPTIONS''])"
  "defaults configuredViper ''security.cors.allowed_headers'' = Some (AStrings [''*''])"
  "defaults configuredViper ''security.encryption.key'' = None"
  "defaults configuredViper ''security.encryption.algorithm'' = Some (AString ''AES-256-GCM'')"
  "defaults configuredViper ''metrics.enabled'' = Some (ABool True)"
  "defaults configuredViper ''metrics.path'' = Some (AString ''/metrics'')"
  "defaults configuredViper ''metrics.port'' = Some (AInt 9090)"
  unfolding defaults_configured
  by (simp_all only: map_of.simps fun_upd_apply list.inject char.inject simp_thms if_True
      if_False fst_conv snd_conv)

lemma toUpper_BPMS: "map toUpper ''BPMS_'' = ''BPMS_''"
  by (simp add: toUpper_def)

text \<open>
  With the prefix \<open>BPMS\<close>, the environment variable of every key starts with \<open>BPMS_\<close>;
  when no such variable is set, the lookup of a key falls through to the file and the
  defaults.
\<close>

lemma getEnv_BPMS:
  assumes "no_BPMS_environ sys" and "envPrefix v = ''BPMS''"
    and "envKeyReplacer v = Some (CHR ''.'', CHR ''_'')"
  shows "getEnv v sys (mergeWithEnvPrefix v k) = None"
proof -
  let ?replace = "map (\<lambda>c. if c = CHR ''.'' then CHR ''_'' else c)"
  have "mergeWithEnvPrefix v k = ''BPMS_'' @ map toUpper k"
    using assms(2) toUpper_BPMS by (simp add: mergeWithEnvPrefix_def)
  then have "prefix ''BPMS_'' (?replace (mergeWithEnvPrefix v k))"
    by simp
  with assms(1) have "environ sys (?replace (mergeWithEnvPrefix v k)) = None"
    unfolding no_BPMS_environ_def by blast
  then show ?thesis
    using assms(3) by (simp add: getEnv_def)
qed

lemma viper_find_no_env:
  assumes "no_BPMS_environ sys" and "envPrefix v = ''BPMS''"
    and "envKeyReplacer v = Some (CHR ''.'', CHR ''_'')"
  shows "viper_find v sys k = (case config v k of Some x \<Rightarrow> Some x | None \<Rightarrow> defaults v k)"
  using getEnv_BPMS [OF assms]
  by (simp add: viper_find_def isPathShadowedInAutoEnv_def list_ex_iff)

lemma field_configured:
  assumes "no_BPMS_environ sys"
  shows "field configuredViper sys decode zero k =
     (case defaults configuredViper k of None \<Rightarrow> Inr zero | Some x \<Rightarrow> decode x)"
proof -
  have "viper_find configuredViper sys k = defaults configuredViper k"
    using assms by (simp add: viper_find_no_env configuredViper_fields)
  then show ?thesis
    by (auto simp: field_def AllKeys_def configuredViper_fields split: option.splits)
qed

lemma decoders_facts:
  assumes "decodes_typed_values d"
  shows "decodeString d (AString s) = Inr s" "decodeInt d (AInt n) = Inr n"
    "decodeBool d (ABool b) = Inr b" "decodeStrings d (AStrings l) = Inr l"
    "decodeDuration d (AString ''30s'') = Inr (30 * Second)"
    "decodeDuration d (AString ''60s'') = Inr (60 * Second)"
    "decodeDuration d (AString ''5m'') = Inr (5 * Minute)"
    "decodeDuration d (AString ''15m'') = Inr (15 * Minute)"
    "decodeDuration d (AString ''168h'') = Inr (168 * Hour)"
    "decodeDuration d (AString ''4h'') = Inr (4 * Hour)"
    "decodeDuration d (AString ''1h'') = Inr (1 * Hour)"
    "decodeDuration d (AString ''10m'') = Inr (10 * Minute)"
  using assms unfolding decodes_typed_values_def by blast+

text \<open>Each struct decodes to its part of the default configuration.\<close>

lemma decode_TLSConfig_default:
  assumes "decodes_typed_values d" and "no_BPMS_environ sys"
  shows "decode_TLSConfig d configuredViper sys = Inr (Server_TLS (Server defaultConfig))"
  using assms
  by (simp add: decode_TLSConfig_def field_configured defaults_lookup bindE_def decoders_facts
      defaultConfig_def )

lemma decode_ServerConfig_default:
  assumes "decodes_typed_values d" and "no_BPMS_environ sys"
  shows "decode_ServerConfig d configuredViper sys = Inr (Server defaultConfig)"
  using assms
  by (simp add: decode_ServerConfig_def field_configured defaults_lookup bindE_def decoders_facts
      defaultConfig_def decode_TLSConfig_default)

lemma decode_DatabaseConfig_default:
  assumes "decodes_typed_values d" and "no_BPMS_environ sys"
  shows "decode_DatabaseConfig d configuredViper sys = Inr (Database defaultConfig)"
  using assms
  by (simp add: decode_DatabaseConfig_def field_configured defaults_lookup bindE_def decoders_facts
      defaultConfig_def )

lemma decode_JWTConfig_default:
  assumes "decodes_typed_values d" and "no_BPMS_environ sys"
  shows "decode_JWTConfig d configuredViper sys = Inr (Auth_JWT (Auth defaultConfig))"
  using assms
  by (simp add: decode_JWTConfig_def field_configured defaults_lookup bindE_def decoders_facts
      defaultConfig_def )

lemma decode_KeycloakConfig_default:
  assumes "decodes_typed_values d" and "no_BPMS_environ sys"
  shows "decode_KeycloakConfig d configuredViper sys = Inr (Auth_Keycloak (Auth defaultConfig))"
  using assms
  by (simp add: decode_KeycloakConfig_def field_configured defaults_lookup bindE_def decoders_facts
      defaultConfig_def )

lemma decode_OIDCConfig_default:
  assumes "decodes_typed_values d" and "no_BPMS_environ sys"
  shows "decode_OIDCConfig d configuredViper sys = Inr (Auth_OIDC (Auth defaultConfig))"
  using assms
  by (simp add: decode_OIDCConfig_def field_configured defaults_lookup bindE_def decoders_facts
      defaultConfig_def )

lemma decode_BuiltInConfig_default:
  assumes "decodes_typed_values d" and "no_BPMS_environ sys"
  shows "decode_BuiltInConfig d configuredViper sys = Inr (Auth_BuiltIn (Auth defaultConfig))"
  using assms
  by (simp add: decode_BuiltInConfig_def field_configured defaults_lookup bindE_def decoders_facts
      defaultConfig_def )

lemma decode_AuthSecurityConfig_default:
  assumes "decodes_typed_values d" and "no_BPMS_environ sys"
  shows "decode_AuthSecurityConfig d configuredViper sys = Inr (Auth_Security (Auth defaultConfig))"
  using assms
  by (simp add: decode_AuthSecurityConfig_def field_configured defaults_lookup bindE_def decoders_facts
      defaultConfig_def )

lemma decode_AuthConfig_default:
  assumes "decodes_typed_values d" and "no_BPMS_environ sys"
  shows "decode_AuthConfig d configuredViper sys = Inr (Auth defaultConfig)"
  using assms
  by (simp add: decode_AuthConfig_def field_configured defaults_lookup bindE_def decoders_facts
      defaultConfig_def decode_JWTConfig_default decode_KeycloakConfig_default decode_OIDCConfig_default decode_BuiltInConfig_default decode_AuthSecurityConfig_default)

lemma decode_NATSConfig_default:
  assumes "decodes_typed_values d" and "no_BPMS_environ sys"
  shows "decode_NATSConfig d configuredViper sys = Inr (NATS defaultConfig)"
  using assms
  by (simp add: decode_NATSConfig_def field_configured defaults_lookup bindE_def decoders_facts
      defaultConfig_def )

lemma decode_RedisConfig_default:
  assumes "decodes_typed_values d" and "no_BPMS_environ sys"
  shows "decode_RedisConfig d configuredViper sys = Inr (Redis defaultConfig)"
  using assms
  by (simp add: decode_RedisConfig_def field_configured defaults_lookup bindE_def decoders_facts
      defaultConfig_def )

lemma decode_OpenAIConfig_default:
  assumes "decodes_typed_values d" and "no_BPMS_environ sys"
  shows "decode_OpenAIConfig d configuredViper sys = Inr (AI_OpenAI (AI defaultConfig))"
  using assms
  by (simp add: decode_OpenAIConfig_def field_configured defaults_lookup bindE_def decoders_facts
      defaultConfig_def )

lemma decode_CustomAIConfig_default:
  assumes "decodes_typed_values d" and "no_BPMS_environ sys"
  shows "decode_CustomAIConfig d configuredViper sys = Inr (AI_Custom (AI defaultConfig))"
  using assms
  by (simp add: decode_CustomAIConfig_def field_configured defaults_lookup bindE_def decoders_facts
      defaultConfig_def )

lemma decode_AIConfig_default:
  assumes "decodes_typed_values d" and "no_BPMS_environ sys"
  shows "decode_AIConfig d configuredViper sys = Inr (AI defaultConfig)"
  using assms
  by (simp add: decode_AIConfig_def field_configured defaults_lookup bindE_def decoders_facts
      defaultConfig_def decode_OpenAIConfig_default decode_CustomAIConfig_default)

lemma decode_LoggingConfig_default:
  assumes "decodes_typed_values d" and "no_BPMS_environ sys"
  shows "decode_LoggingConfig d configuredViper sys = Inr (Logging defaultConfig)"
  using assms
  by (simp add: decode_LoggingConfig_def field_configured defaults_lookup bindE_def decoders_facts
      defaultConfig_def )

lemma decode_CacheConfig_default:
  assumes "decodes_typed_values d" and "no_BPMS_environ sys"
  shows "decode_CacheConfig d configuredViper sys = Inr (Cache defaultConfig)"
  using assms
  by (simp add: decode_CacheConfig_def field_configured defaults_lookup bindE_def decoders_facts
      defaultConfig_def )

lemma decode_RateLimitConfig_default:
  assumes "decodes_typed_values d" and "no_BPMS_environ sys"
  shows "decode_RateLimitConfig d configuredViper sys = Inr (Security_RateLimit (Security defaultConfig))"
  using assms
  by (simp add: decode_RateLimitConfig_def field_configured defaults_lookup bindE_def decoders_facts
      defaultConfig_def )

lemma decode_CORSConfig_default:
  assumes "decodes_typed_values d" and "no_BPMS_environ sys"
  shows "decode_CORSConfig d configuredViper sys = Inr (Security_CORS (Security defaultConfig))"
  using assms
  by (simp add: decode_CORSConfig_def field_configured defaults_lookup bindE_def decoders_facts
      defaultConfig_def )

lemma decode_EncryptionConfig_default:
  assumes "decodes_typed_values d" and "no_BPMS_environ sys"
  shows "decode_EncryptionConfig d configuredViper sys = Inr (Security_Encryption (Security defaultConfig))"
  using assms
  by (simp add: decode_EncryptionConfig_def field_configured defaults_lookup bindE_def decoders_facts
      defaultConfig_def )

lemma decode_SecurityConfig_default:
  assumes "decodes_typed_values d" and "no_BPMS_environ sys"
  shows "decode_SecurityConfig d configuredViper sys = Inr (Security defaultConfig)"
  using assms
  by (simp add: decode_SecurityConfig_def field_configured defaults_lookup bindE_def decoders_facts
      defaultConfig_def decode_RateLimitConfig_default decode_CORSConfig_default decode_EncryptionConfig_default)

lemma decode_MetricsConfig_default:
  assumes "decodes_typed_values d" and "no_BPMS_environ sys"
  shows "decode_MetricsConfig d configuredViper sys = Inr (Metrics defaultConfig)"
  using assms
  by (simp add: decode_MetricsConfig_def field_configured defaults_lookup bindE_def decoders_facts
      defaultConfig_def )

lemma decode_Config_default:
  assumes "decodes_typed_values d" and "no_BPMS_environ sys"
  shows "decode_Config d configuredViper sys = Inr (defaultConfig)"
  using assms
  by (simp add: decode_Config_def field_configured defaults_lookup bindE_def decoders_facts
      defaultConfig_def decode_ServerConfig_default decode_DatabaseConfig_default decode_AuthConfig_default decode_NATSConfig_default decode_RedisConfig_default decode_AIConfig_default decode_LoggingConfig_default decode_CacheConfig_default decode_SecurityConfig_default decode_MetricsConfig_default)

lemma Load_unfold:
  "Load d sys =
     (case ReadInConfig sys configuredViper of
        (Some ConfigFileNotFoundError, v) \<Rightarrow>
          (case Unmarshal d v sys of
             Inl e \<Rightarrow> Inl (Errorf ''failed to unmarshal config: '' e)
           | Inr cfg \<Rightarrow> Inr cfg)
      | (Some e, v) \<Rightarrow> Inl (Errorf ''failed to read config file: '' e)
      | (None, v) \<Rightarrow>
          (case Unmarshal d v sys of
             Inl e \<Rightarrow> Inl (Errorf ''failed to unmarshal config: '' e)
           | Inr cfg \<Rightarrow> Inr cfg))"
  by (simp add: Load_def configuredViper_def Let_def split: prod.splits option.splits error.splits)

lemma ReadInConfig_configured:
  "ReadInConfig sys configuredViper =
     (case readConfigFile sys ''config'' ''yaml'' [''./configs'', ''.''] of
        NotFound \<Rightarrow> (Some ConfigFileNotFoundError, configuredViper)
      | ReadFailure msg \<Rightarrow> (Some (ErrorString msg), configuredViper)
      | ParseFailure msg \<Rightarrow> (Some (ErrorString msg), configuredViper)
      | Parsed settings \<Rightarrow> (None, configuredViper\<lparr>config := settings\<rparr>))"
  by (simp add: ReadInConfig_def configuredViper_fields)

text \<open>
  Claim C9. With no configuration file at any search path and no environment variable
  with the prefix \<open>BPMS_\<close>, \<open>Load\<close> returns a nil error and the configuration of the
  hard-coded defaults. A missing configuration file is not an error: \<open>Load\<close> goes on to
  unmarshal the defaults and the environment. Any other failure to read the file, and any
  failure to unmarshal, gives a nil configuration and a non-nil error.
\<close>

theorem Load_defaults_and_errors:
  fixes d :: decoders and sys :: system
  defines "outcome \<equiv> readConfigFile sys ''config'' ''yaml'' [''./configs'', ''.'']"
  shows
   "(decodes_typed_values d \<and> outcome = NotFound \<and> no_BPMS_environ sys \<longrightarrow>
       Load d sys = Inr defaultConfig) \<and>
    (outcome = NotFound \<longrightarrow>
       Load d sys = (case Unmarshal d configuredViper sys of
                       Inl e \<Rightarrow> Inl (Errorf ''failed to unmarshal config: '' e)
                     | Inr cfg \<Rightarrow> Inr cfg)) \<and>
    (\<forall>msg. outcome = ReadFailure msg \<or> outcome = ParseFailure msg \<longrightarrow>
       Load d sys = Inl (Errorf ''failed to read config file: '' (ErrorString msg))) \<and>
    (\<forall>e. (outcome = NotFound \<or> (\<exists>settings. outcome = Parsed settings)) \<and>
          Unmarshal d (snd (ReadInConfig sys configuredViper)) sys = Inl e \<longrightarrow>
       Load d sys = Inl (Errorf ''failed to unmarshal config: '' e))"
proof (intro conjI impI allI)
  assume "decodes_typed_values d \<and> outcome = NotFound \<and> no_BPMS_environ sys"
  then show "Load d sys = Inr defaultConfig"
    unfolding outcome_def
    by (simp add: Load_unfold ReadInConfig_configured Unmarshal_def decode_Config_default)
next
  assume "outcome = NotFound"
  then show "Load d sys = (case Unmarshal d configuredViper sys of
                       Inl e \<Rightarrow> Inl (Errorf ''failed to unmarshal config: '' e)
                     | Inr cfg \<Rightarrow> Inr cfg)"
    unfolding outcome_def by (simp add: Load_unfold ReadInConfig_configured)
next
  fix msg
  assume "outcome = ReadFailure msg \<or> outcome = ParseFailure msg"
  then show "Load d sys = Inl (Errorf ''failed to read config file: '' (ErrorString msg))"
    unfolding outcome_def by (auto simp: Load_unfold ReadInConfig_configured)
next
  fix e
  assume "(outcome = NotFound \<or> (\<exists>settings. outcome = Parsed settings)) \<and>
          Unmarshal d (snd (ReadInConfig sys configuredViper)) sys = Inl e"
  then show "Load d sys = Inl (Errorf ''failed to unmarshal config: '' e)"
    unfolding outcome_def by (auto simp: Load_unfold ReadInConfig_configured)
qed

lemma exampleDecoders_typed: "decodes_typed_values exampleDecoders"
  by (simp add: decodes_typed_values_def exampleDecoders_def parseDuration_def digitVal_def)

lemma systemNoFile_no_BPMS: "no_BPMS_environ systemNoFile"
  by (auto simp: no_BPMS_environ_def systemNoFile_def)

lemma Unmarshal_systemBadFile:
  "Unmarshal exampleDecoders (snd (ReadInConfig systemBadFile configuredViper)) systemBadFile
     = Inl (ErrorString ''invalid syntax'')"
  by (simp add: Unmarshal_def decode_Config_def decode_ServerConfig_def bindE_def field_def
      AllKeys_def viper_find_def getEnv_def isPathShadowedInAutoEnv_def list_ex_iff
      ReadInConfig_configured systemBadFile_def configuredViper_fields defaults_lookup
      exampleDecoders_def parseInt_def digitVal_def)

lemma envNames:
  "mergeWithEnvPrefix configuredViper ''server'' = ''BPMS_SERVER''"
  "mergeWithEnvPrefix configuredViper ''server.host'' = ''BPMS_SERVER.HOST''"
  "mergeWithEnvPrefix configuredViper ''server.port'' = ''BPMS_SERVER.PORT''"
  by (simp_all add: mergeWithEnvPrefix_def configuredViper_fields) code_simp+

lemma viper_find_systemBadEnv:
  "viper_find configuredViper systemBadEnv ''server.host'' = Some (AString ''localhost'')"
  "viper_find configuredViper systemBadEnv ''server.port'' = Some (AString ''http'')"
  by (simp_all add: viper_find_def isPathShadowedInAutoEnv_def envNames getEnv_def
      configuredViper_fields systemBadEnv_def defaults_lookup)

lemma Unmarshal_systemBadEnv:
  "Unmarshal exampleDecoders (snd (ReadInConfig systemBadEnv configuredViper)) systemBadEnv
     = Inl (ErrorString ''invalid syntax'')"
proof -
  have "snd (ReadInConfig systemBadEnv configuredViper) = configuredViper"
    by (simp add: ReadInConfig_configured systemBadEnv_def)
  moreover have "field configuredViper systemBadEnv (decodeString exampleDecoders) []
      ''server.host'' = Inr ''localhost''"
    by (simp add: field_def AllKeys_def domIff defaults_lookup viper_find_systemBadEnv
        exampleDecoders_def)
  moreover have "field configuredViper systemBadEnv (decodeInt exampleDecoders) 0
      ''server.port'' = Inl (ErrorString ''invalid syntax'')"
    by (simp add: field_def AllKeys_def domIff defaults_lookup viper_find_systemBadEnv
        exampleDecoders_def parseInt_def digitVal_def)
  ultimately show ?thesis
    by (simp add: Unmarshal_def decode_Config_def decode_ServerConfig_def bindE_def)
qed

theorem Load_defaults_and_errors_witness:
  "decodes_typed_values exampleDecoders \<and> no_BPMS_environ systemNoFile \<and>
   readConfigFile systemNoFile ''config'' ''yaml'' [''./configs'', ''.''] = NotFound \<and>
   Load exampleDecoders systemNoFile = Inr defaultConfig \<and>
   Load exampleDecoders systemUnreadable =
     Inl (Errorf ''failed to read config file: ''
           (ErrorString ''open ./configs/config.yaml: permission denied'')) \<and>
   Load exampleDecoders systemBadFile =
     Inl (Errorf ''failed to unmarshal config: '' (ErrorString ''invalid syntax'')) \<and>
   Load exampleDecoders systemBadEnv =
     Inl (Errorf ''failed to unmarshal config: '' (ErrorString ''invalid syntax''))"
proof -
  have nofile: "readConfigFile systemNoFile ''config'' ''yaml'' [''./configs'', ''.''] = NotFound"
    by (simp add: systemNoFile_def)
  have unreadable: "readConfigFile systemUnreadable ''config'' ''yaml'' [''./configs'', ''.'']
      = ReadFailure ''open ./configs/config.yaml: permission denied''"
    by (simp add: systemUnreadable_def)
  have badfile: "\<exists>settings. readConfigFile systemBadFile ''config'' ''yaml'' [''./configs'', ''.'']
      = Parsed settings"
    by (simp add: systemBadFile_def)
  have badenv: "readConfigFile systemBadEnv ''config'' ''yaml'' [''./configs'', ''.''] = NotFound"
    by (simp add: systemBadEnv_def)
  show ?thesis
    using Load_defaults_and_errors [of exampleDecoders systemNoFile]
      Load_defaults_and_errors [of exampleDecoders systemUnreadable]
      Load_defaults_and_errors [of exampleDecoders systemBadFile]
      Load_defaults_and_errors [of exampleDecoders systemBadEnv]
      exampleDecoders_typed systemNoFile_no_BPMS nofile unreadable badfile badenv
      Unmarshal_systemBadFile Unmarshal_systemBadEnv
    by blast
qed

section \<open>Properties of the HTTP handlers\<close>

lemmas placeholder_handler_defs =
  loginHandler_def logoutHandler_def refreshHandler_def profileHandler_def
  listProcesses_def createProcess_def getProcess_def updateProcess_def deleteProcess_def
  listInstances_def startInstance_def getInstance_def updateInstance_def cancelInstance_def
  listTasks_def getTask_def completeTask_def assignTask_def getFormSchema_def validateForm_def
  listRules_def createRule_def updateRule_def evaluateRule_def aiGenerateProcess_def
  aiGenerateRules_def aiOptimizeProcess_def getDashboard_def getProcessAnalytics_def
  getInstanceAnalytics_def listUsers_def createUser_def updateUser_def deleteUser_def
  updateUserRoles_def wsNotifications_def wsTasks_def

text \<open>
  Claim C1. The routes that \<open>setupRoutes\<close> registers on the groups under \<open>/api/v1\<close>
  are the 35 routes of auth, processes, instances, tasks, forms, rules, ai, analytics and
  admin, whatever the configuration. Every one of them is bound to a placeholder: on any
  request, in any state of the clock and the database, the handler answers with status
  200 and a JSON object that holds only a \<open>message\<close> ending in \<open>TODO: Implement\<close>,
  and the answer is the same for every request and every state, so no workflow, rule,
  scheduling or authentication logic takes part in it.
\<close>

theorem api_v1_handlers_are_placeholders:
  "map route_basePath (filter (\<lambda>r. prefix ''/api/v1'' (route_basePath r)) (setupRoutes cfg db)) =
     replicate 4 ''/api/v1/auth'' @ replicate 5 ''/api/v1/processes'' @
     replicate 5 ''/api/v1/instances'' @ replicate 4 ''/api/v1/tasks'' @
     replicate 2 ''/api/v1/forms'' @ replicate 4 ''/api/v1/rules'' @ replicate 3 ''/api/v1/ai'' @
     replicate 3 ''/api/v1/analytics'' @ replicate 5 ''/api/v1/admin'' \<and>
   (\<forall>r \<in> set (setupRoutes cfg db). prefix ''/api/v1'' (route_basePath r) \<longrightarrow>
     (\<forall>w c. is_placeholder (route_handler r w c)) \<and>
     (\<forall>w c w' c'. route_handler r w c = route_handler r w' c'))"
  by (simp add: setupRoutes_def Let_def Group_def handle_def placeholder_handler_defs
      is_placeholder_def JSON_def StatusOK_def suffix_to_prefix numeral_eq_Suc)

theorem api_v1_handlers_are_placeholders_witness:
  "POST ''/api/v1/instances'' [] startInstance \<in> set (setupRoutes defaultConfig ()) \<and>
   prefix ''/api/v1'' (route_basePath (POST ''/api/v1/instances'' [] startInstance)) \<and>
   is_placeholder (startInstance \<lparr>time_Now = 0, database = []\<rparr>
     \<lparr>Request = \<lparr>req_method = ''POST'', req_path = ''/api/v1/instances'', req_headers = [],
        req_body = ''key=leave-approval''\<rparr>\<rparr>)"
proof -
  have member: "POST ''/api/v1/instances'' [] startInstance \<in> set (setupRoutes defaultConfig ())"
    by (simp add: setupRoutes_def Let_def Group_def)
  have under: "prefix ''/api/v1'' (route_basePath (POST ''/api/v1/instances'' [] startInstance))"
    by (simp add: handle_def)
  from api_v1_handlers_are_placeholders [of defaultConfig "()", THEN conjunct2] member under
  have "\<forall>w c. is_placeholder (route_handler (POST ''/api/v1/instances'' [] startInstance) w c)"
    by blast
  then have "\<forall>w c. is_placeholder (startInstance w c)"
    by (simp add: handle_def)
  with member under show ?thesis by blast
qed

text \<open>
  The clock is a state that a handler can depend on: the health check, which is not under
  \<open>/api/v1\<close>, answers differently at different times.
\<close>

lemma healthCheck_reads_clock:
  "time_Now w \<noteq> time_Now w' \<Longrightarrow> healthCheck w c \<noteq> healthCheck w' c"
  by (simp add: healthCheck_def JSON_def)

section \<open>Properties of the migrator\<close>

lemma thenE_recorded:
  assumes "\<And>d. recorded (snd (f d)) = recorded d"
  shows "recorded (snd (thenE r f)) = recorded (snd r)"
  using assms by (cases r) (auto simp: thenE_def split: option.splits)

lemma forEach_recorded:
  assumes "\<And>x d. x \<in> set xs \<Longrightarrow> recorded (snd (body x d)) = recorded d"
  shows "recorded (snd (forEach body xs d)) = recorded d"
  using assms
proof (induction xs arbitrary: d)
  case Nil
  then show ?case by simp
next
  case (Cons x xs)
  have "recorded (snd (thenE (body x d) (forEach body xs))) = recorded (snd (body x d))"
    by (rule thenE_recorded) (simp add: Cons)
  then show ?case by (simp add: Cons.prems)
qed

lemma tracks_recordsD:
  assumes "tracks_records g recorded"
  shows "Find_MigrationRecords g d = Inr rs \<Longrightarrow> Record_Version ` set rs = recorded d"
    and "recorded (snd (Create_MigrationRecord g r d)) =
        (if fst (Create_MigrationRecord g r d) = None
         then insert (Record_Version r) (recorded d) else recorded d)"
    and "prefix ''CREATE '' sql \<Longrightarrow> recorded (snd (Exec g sql d)) = recorded d"
    and "recorded (snd (AutoMigrate g models d)) = recorded d"
    and "recorded (snd (FirstOrCreate_Permission g p n d)) = recorded d"
    and "recorded (snd (FirstOrCreate_Role g ro n d)) = recorded d"
  using assms unfolding tracks_records_def by simp_all

lemma Up_recorded:
  assumes "tracks_records g recorded" and "mig \<in> set (getMigrations g)"
  shows "recorded (snd (Up mig d)) = recorded d"
proof -
  note t = tracks_recordsD [OF assms(1)]
  have "recorded (snd (migration001Up g d)) = recorded d"
    unfolding migration001Up_def
    by (simp add: thenE_recorded forEach_recorded t)
  moreover have "recorded (snd (migration002Up g d)) = recorded d"
    unfolding migration002Up_def
    by (simp add: thenE_recorded forEach_recorded t)
  moreover have "recorded (snd (migration003Up g d)) = recorded d"
    unfolding migration003Up_def by (simp add: t)
  moreover have "recorded (snd (migration004Up g d)) = recorded d"
    unfolding migration004Up_def by (simp add: t)
  moreover have "recorded (snd (migration005Up g d)) = recorded d"
    unfolding migration005Up_def
    by (simp add: thenE_recorded forEach_recorded t)
  ultimately show ?thesis
    using assms(2) by (auto simp: getMigrations_def)
qed

lemma index_bool_foldl:
  "index_bool (foldl (\<lambda>applied record. applied(Record_Version record \<mapsto> True)) a rs) v
     \<longleftrightarrow> index_bool a v \<or> v \<in> Record_Version ` set rs"
  by (induction rs arbitrary: a) (auto simp: index_bool_def)

lemma getAppliedMigrations_recorded:
  assumes "tracks_records g recorded" and "getAppliedMigrations g m = Inr applied"
  shows "index_bool applied v \<longleftrightarrow> v \<in> recorded (Migrator_db m)"
proof (cases "Find_MigrationRecords g (Migrator_db m)")
  case (Inl err)
  with assms(2) show ?thesis by (simp add: getAppliedMigrations_def)
next
  case (Inr rs)
  with assms(2) have "applied = foldl (\<lambda>applied record. applied(Record_Version record \<mapsto> True))
      Map.empty rs"
    by (simp add: getAppliedMigrations_def)
  moreover have "Record_Version ` set rs = recorded (Migrator_db m)"
    using tracks_recordsD(1) [OF assms(1) Inr] .
  ultimately have "index_bool applied v \<longleftrightarrow>
      index_bool Map.empty v \<or> v \<in> recorded (Migrator_db m)"
    by (simp only: index_bool_foldl)
  then show ?thesis
    by (simp add: index_bool_def)
qed

lemma Run_loop_success:
  assumes "tracks_records g recorded"
    and "\<forall>mig \<in> set ms. \<forall>d. recorded (snd (Up mig d)) = recorded d"
    and "Run_loop g applied ms d log = (None, d', log')"
  shows "d' = foldl (apply_migration g) d (filter (\<lambda>mig. \<not> index_bool applied (Version mig)) ms) \<and>
         log' = log @ concat (map migration_log
                   (filter (\<lambda>mig. \<not> index_bool applied (Version mig)) ms)) \<and>
         recorded d' = recorded d \<union>
           Version ` set (filter (\<lambda>mig. \<not> index_bool applied (Version mig)) ms)"
  using assms(2,3)
proof (induction ms arbitrary: d log)
  case Nil
  then show ?case by simp
next
  case (Cons mig ms)
  have ups: "\<forall>mig \<in> set ms. \<forall>d. recorded (snd (Up mig d)) = recorded d"
    using Cons.prems(1) by simp
  show ?case
  proof (cases "index_bool applied (Version mig)")
    case True
    with Cons.prems(2) have "Run_loop g applied ms d log = (None, d', log')" by simp
    note IH = Cons.IH [OF ups this]
    from IH [THEN conjunct1] IH [THEN conjunct2, THEN conjunct1]
      IH [THEN conjunct2, THEN conjunct2] True
    show ?thesis by (intro conjI) simp_all
  next
    case False
    let ?row = "\<lparr>Record_Version = Version mig, Record_AppliedAt = 0\<rparr>"
    let ?line1 = "''Running migration '' @ Version mig @ '': '' @ Description mig"
    let ?line2 = "''Migration '' @ Version mig @ '' completed successfully''"
    obtain e1 d1 where up: "Up mig d = (e1, d1)" by (cases "Up mig d")
    obtain e2 d2 where cr: "Create_MigrationRecord g ?row d1 = (e2, d2)"
      by (cases "Create_MigrationRecord g ?row d1")
    from Cons.prems(2) False up have e1: "e1 = None"
      by (auto simp: Let_def split: option.splits)
    from Cons.prems(2) False up cr e1 have e2: "e2 = None"
      by (auto simp: Let_def split: option.splits)
    from Cons.prems(2) False up cr e1 e2
    have rest: "Run_loop g applied ms d2 ((log @ [?line1]) @ [?line2]) = (None, d', log')"
      by (simp add: Let_def)
    have d2: "d2 = apply_migration g d mig"
      using up cr by (simp add: apply_migration_def)
    have "recorded d1 = recorded d"
      using Cons.prems(1) up by (metis list.set_intros(1) snd_conv)
    moreover have "recorded d2 = insert (Version mig) (recorded d1)"
      using tracks_recordsD(2) [OF assms(1), of ?row d1] cr e2 by simp
    ultimately have rec: "recorded d2 = insert (Version mig) (recorded d)" by simp
    note IH = Cons.IH [OF ups rest]
    let ?todo = "filter (\<lambda>mig. \<not> index_bool applied (Version mig))"
    from IH have "d' = foldl (apply_migration g) d2 (?todo ms)"
      by (rule conjunct1)
    then have 1: "d' = foldl (apply_migration g) d (?todo (mig # ms))"
      using False d2 by simp
    from IH have "log' = ((log @ [?line1]) @ [?line2]) @ concat (map migration_log (?todo ms))"
      by (rule conjunct2 [THEN conjunct1])
    then have 2: "log' = log @ concat (map migration_log (?todo (mig # ms)))"
      using False by (simp add: migration_log_def)
    from IH have "recorded d' = recorded d2 \<union> Version ` set (?todo ms)"
      by (rule conjunct2 [THEN conjunct2])
    then have 3: "recorded d' = recorded d \<union> Version ` set (?todo (mig # ms))"
      using False rec by simp
    from 1 2 3 show ?thesis by (intro conjI)
  qed
qed

lemma Run_loop_nothing_pending:
  assumes "\<And>mig. mig \<in> set ms \<Longrightarrow> index_bool applied (Version mig)"
  shows "Run_loop g applied ms d log = (None, d, log)"
  using assms by (induction ms) simp_all

lemma Run_success:
  assumes t: "tracks_records g recorded"
    and ups: "\<forall>mig \<in> set (Migrator_migrations m). \<forall>d. recorded (snd (Up mig d)) = recorded d"
    and run: "Run g m = (None, m', log)"
  shows "Migrator_db m' = foldl (apply_migration g)
           (snd (AutoMigrate g [''MigrationRecord''] (Migrator_db m))) (pending recorded m)"
    and "log = concat (map migration_log (pending recorded m))
           @ [''All migrations completed successfully'']"
    and "recorded (Migrator_db m') = recorded (Migrator_db m) \<union> Version ` set (pending recorded m)"
    and "Migrator_migrations m' = Migrator_migrations m"
proof -
  obtain e0 d0 where am: "AutoMigrate g [''MigrationRecord''] (Migrator_db m) = (e0, d0)"
    by (cases "AutoMigrate g [''MigrationRecord''] (Migrator_db m)")
  from run am have e0: "e0 = None"
    by (auto simp: Run_def split: option.splits sum.splits prod.splits)
  from run am e0 obtain applied where
    ga: "getAppliedMigrations g (m\<lparr>Migrator_db := d0\<rparr>) = Inr applied"
    by (auto simp: Run_def split: option.splits sum.splits prod.splits)
  from run am e0 ga obtain d' log0 where
    loop: "Run_loop g applied (Migrator_migrations m) d0 [] = (None, d', log0)"
    and m': "m' = m\<lparr>Migrator_db := d'\<rparr>"
    and log: "log = log0 @ [''All migrations completed successfully'']"
    by (auto simp: Run_def split: option.splits sum.splits prod.splits)
  have d0: "recorded d0 = recorded (Migrator_db m)"
    using tracks_recordsD(4) [OF t, of "[''MigrationRecord'']" "Migrator_db m"] am by simp
  have "\<And>v. index_bool applied v \<longleftrightarrow> v \<in> recorded (Migrator_db m)"
    using getAppliedMigrations_recorded [OF t ga] d0 by simp
  then have todo: "filter (\<lambda>mig. \<not> index_bool applied (Version mig)) (Migrator_migrations m)
      = pending recorded m"
    by (simp add: pending_def)
  note L = Run_loop_success [OF t ups loop, unfolded todo]
  show "Migrator_db m' = foldl (apply_migration g)
           (snd (AutoMigrate g [''MigrationRecord''] (Migrator_db m))) (pending recorded m)"
    using L [THEN conjunct1] m' am by simp
  show "log = concat (map migration_log (pending recorded m))
           @ [''All migrations completed successfully'']"
    using L [THEN conjunct2, THEN conjunct1] log by simp
  show "recorded (Migrator_db m') = recorded (Migrator_db m) \<union> Version ` set (pending recorded m)"
    using L [THEN conjunct2, THEN conjunct2] m' d0 by simp
  show "Migrator_migrations m' = Migrator_migrations m"
    using m' by simp
qed

lemma Run_nothing_pending:
  assumes t: "tracks_records g recorded"
    and all: "Version ` set (Migrator_migrations m) \<subseteq> recorded (Migrator_db m)"
    and run: "Run g m = (err, m', log)"
  shows "Migrator_db m' = snd (AutoMigrate g [''MigrationRecord''] (Migrator_db m))"
    and "recorded (Migrator_db m') = recorded (Migrator_db m)"
    and "log = (if err = None then [''All migrations completed successfully''] else [])"
proof -
  obtain e0 d0 where am: "AutoMigrate g [''MigrationRecord''] (Migrator_db m) = (e0, d0)"
    by (cases "AutoMigrate g [''MigrationRecord''] (Migrator_db m)")
  have d0: "recorded d0 = recorded (Migrator_db m)"
    using tracks_recordsD(4) [OF t, of "[''MigrationRecord'']" "Migrator_db m"] am by simp
  have loop: "Run_loop g applied (Migrator_migrations m) d0 [] = (None, d0, [])"
    if "getAppliedMigrations g (m\<lparr>Migrator_db := d0\<rparr>) = Inr applied" for applied
  proof (rule Run_loop_nothing_pending)
    fix mig assume "mig \<in> set (Migrator_migrations m)"
    with all d0 have "Version mig \<in> recorded d0" by auto
    then show "index_bool applied (Version mig)"
      using getAppliedMigrations_recorded [OF t that] by simp
  qed
  have "Migrator_db m' = d0 \<and> log = (if err = None then [''All migrations completed successfully''] else [])"
    using run am loop
    by (cases e0; cases "getAppliedMigrations g (m\<lparr>Migrator_db := d0\<rparr>)")
       (auto simp: Run_def)
  then show "Migrator_db m' = snd (AutoMigrate g [''MigrationRecord''] (Migrator_db m))"
    and "recorded (Migrator_db m') = recorded (Migrator_db m)"
    and "log = (if err = None then [''All migrations completed successfully''] else [])"
    using am d0 by simp_all
qed

text \<open>
  Claim C8, amended. \<open>Run\<close> is order-preserving and idempotent when it succeeds: the
  fixed list holds the versions 001 to 005 in this order, and for every state of the
  database on which \<open>Run\<close> returns no error, \<open>Run\<close> has applied exactly the migrations of
  the list whose version was not recorded in \<open>migration_records\<close>, in the order of the
  list, and has recorded each of them (the database is the one that applying and recording
  the pending migrations one after the other gives, the log names them in this order, and
  the recorded versions are the old ones and the pending ones). A second \<open>Run\<close> right
  after it applies no migration: whatever it returns, it only runs \<open>AutoMigrate\<close> on the
  record table, logs no migration and leaves the set of recorded versions as it is.
\<close>

theorem Run_applies_pending_in_order:
  assumes "tracks_records g recorded"
    and "Run g (NewMigrator g d) = (None, m', log)"
  shows
   "map Version (Migrator_migrations (NewMigrator g d)) =
      [''001_initial_schema'', ''002_rbac_system'', ''003_process_engine'',
       ''004_audit_system'', ''005_indexes_optimization''] \<and>
    Migrator_db m' = foldl (apply_migration g) (snd (AutoMigrate g [''MigrationRecord''] d))
                       (pending recorded (NewMigrator g d)) \<and>
    log = concat (map migration_log (pending recorded (NewMigrator g d)))
            @ [''All migrations completed successfully''] \<and>
    recorded (Migrator_db m') = recorded d \<union> Version ` set (pending recorded (NewMigrator g d)) \<and>
    (\<forall>err m'' log'. Run g m' = (err, m'', log') \<longrightarrow>
       Migrator_db m'' = snd (AutoMigrate g [''MigrationRecord''] (Migrator_db m')) \<and>
       recorded (Migrator_db m'') = recorded (Migrator_db m') \<and>
       log' = (if err = None then [''All migrations completed successfully''] else []))"
proof -
  let ?m = "NewMigrator g d"
  have ups: "\<forall>mig \<in> set (Migrator_migrations ?m). \<forall>d. recorded (snd (Up mig d)) = recorded d"
    using Up_recorded [OF assms(1)] by (simp add: NewMigrator_def)
  note S = Run_success [OF assms(1) ups assms(2)]
  have versions: "map Version (Migrator_migrations ?m) =
      [''001_initial_schema'', ''002_rbac_system'', ''003_process_engine'',
       ''004_audit_system'', ''005_indexes_optimization'']"
    by (simp add: NewMigrator_def getMigrations_def)
  have db: "Migrator_db ?m = d"
    by (simp add: NewMigrator_def)
  have "Version ` set (Migrator_migrations ?m) \<subseteq> recorded d \<union> Version ` set (pending recorded ?m)"
    by (auto simp: pending_def db)
  then have all: "Version ` set (Migrator_migrations m') \<subseteq> recorded (Migrator_db m')"
    using S(3,4) db by simp
  have second: "Migrator_db m'' = snd (AutoMigrate g [''MigrationRecord''] (Migrator_db m')) \<and>
       recorded (Migrator_db m'') = recorded (Migrator_db m') \<and>
       log' = (if err = None then [''All migrations completed successfully''] else [])"
    if "Run g m' = (err, m'', log')" for err m'' log'
    using Run_nothing_pending [OF assms(1) all that] by simp
  show ?thesis
  proof (intro conjI)
    show "map Version (Migrator_migrations ?m) =
      [''001_initial_schema'', ''002_rbac_system'', ''003_process_engine'',
       ''004_audit_system'', ''005_indexes_optimization'']"
      by (fact versions)
    show "Migrator_db m' = foldl (apply_migration g)
        (snd (AutoMigrate g [''MigrationRecord''] d)) (pending recorded ?m)"
      using S(1) db by simp
    show "log = concat (map migration_log (pending recorded ?m))
        @ [''All migrations completed successfully'']"
      by (fact S(2))
    show "recorded (Migrator_db m') = recorded d \<union> Version ` set (pending recorded ?m)"
      using S(3) db by simp
    show "\<forall>err m'' log'. Run g m' = (err, m'', log') \<longrightarrow>
       Migrator_db m'' = snd (AutoMigrate g [''MigrationRecord''] (Migrator_db m')) \<and>
       recorded (Migrator_db m'') = recorded (Migrator_db m') \<and>
       log' = (if err = None then [''All migrations completed successfully''] else [])"
      using second by blast
  qed
qed

lemma forEach_change_records:
  "mem_records (snd (forEach (\<lambda>x. change (f x)) xs d)) = mem_records d"
  by (induction xs arbitrary: d) (simp_all add: change_def thenE_def)

lemma memoryGorm_tracks: "tracks_records (memoryGorm denied) mem_recorded"
  unfolding tracks_records_def memoryGorm_def mem_recorded_def
  by (simp add: forEach_change_records change_def)

lemmas migration_defs = migration001Up_def migration002Up_def migration003Up_def
  migration004Up_def migration005Up_def default_permissions_def default_roles_def

lemma Run_partlyMigrated:
  "fst (Run healthyGorm (NewMigrator healthyGorm partlyMigratedDb)) = None"
  by (simp add: Run_def NewMigrator_def getMigrations_def healthyGorm_def memoryGorm_def
      getAppliedMigrations_def index_bool_def migration_defs thenE_def change_def
      partlyMigratedDb_def Let_def)

lemma pending_partlyMigrated:
  "map Version (pending mem_recorded (NewMigrator healthyGorm partlyMigratedDb)) =
     [''003_process_engine'', ''004_audit_system'', ''005_indexes_optimization'']"
  by (simp add: pending_def NewMigrator_def getMigrations_def mem_recorded_def
      partlyMigratedDb_def)

theorem Run_applies_pending_in_order_witness:
  "tracks_records healthyGorm mem_recorded \<and>
   fst (Run healthyGorm (NewMigrator healthyGorm partlyMigratedDb)) = None \<and>
   mem_recorded partlyMigratedDb = {''001_initial_schema'', ''002_rbac_system''} \<and>
   mem_recorded (Migrator_db (fst (snd (Run healthyGorm (NewMigrator healthyGorm partlyMigratedDb)))))
     = {''001_initial_schema'', ''002_rbac_system'', ''003_process_engine'',
        ''004_audit_system'', ''005_indexes_optimization''} \<and>
   snd (snd (Run healthyGorm (NewMigrator healthyGorm partlyMigratedDb))) =
     [''Running migration 003_process_engine: Create process engine tables'',
      ''Migration 003_process_engine completed successfully'',
      ''Running migration 004_audit_system: Create audit logging system'',
      ''Migration 004_audit_system completed successfully'',
      ''Running migration 005_indexes_optimization: Add performance indexes'',
      ''Migration 005_indexes_optimization completed successfully'',
      ''All migrations completed successfully''] \<and>
   snd (snd (Run healthyGorm (fst (snd (Run healthyGorm
       (NewMigrator healthyGorm partlyMigratedDb)))))) =
     (if fst (Run healthyGorm (fst (snd (Run healthyGorm
           (NewMigrator healthyGorm partlyMigratedDb))))) = None
      then [''All migrations completed successfully''] else [])"
proof -
  let ?m = "NewMigrator healthyGorm partlyMigratedDb"
  let ?m' = "fst (snd (Run healthyGorm ?m))"
  let ?log = "snd (snd (Run healthyGorm ?m))"
  have tracks: "tracks_records healthyGorm mem_recorded"
    unfolding healthyGorm_def by (rule memoryGorm_tracks)
  have run: "Run healthyGorm ?m = (None, ?m', ?log)"
    using Run_partlyMigrated by (simp add: prod_eq_iff)
  have before: "mem_recorded partlyMigratedDb = {''001_initial_schema'', ''002_rbac_system''}"
    by (simp add: mem_recorded_def partlyMigratedDb_def)
  have pend: "pending mem_recorded ?m = drop 2 (getMigrations healthyGorm)"
    by (simp add: pending_def NewMigrator_def getMigrations_def mem_recorded_def
        partlyMigratedDb_def)
  have "Version ` set (pending mem_recorded ?m) = set (map Version (pending mem_recorded ?m))"
    by simp
  then have img: "Version ` set (pending mem_recorded ?m) =
      {''003_process_engine'', ''004_audit_system'', ''005_indexes_optimization''}"
    unfolding pending_partlyMigrated by (simp only: list.set)
  note T = Run_applies_pending_in_order [OF tracks run]
  have after: "mem_recorded (Migrator_db ?m') = {''001_initial_schema'', ''002_rbac_system'',
      ''003_process_engine'', ''004_audit_system'', ''005_indexes_optimization''}"
    using T [THEN conjunct2, THEN conjunct2, THEN conjunct2, THEN conjunct1]
    unfolding img before by (simp only: Un_insert_left Un_empty_left)
  have log: "?log =
     [''Running migration 003_process_engine: Create process engine tables'',
      ''Migration 003_process_engine completed successfully'',
      ''Running migration 004_audit_system: Create audit logging system'',
      ''Migration 004_audit_system completed successfully'',
      ''Running migration 005_indexes_optimization: Add performance indexes'',
      ''Migration 005_indexes_optimization completed successfully'',
      ''All migrations completed successfully'']"
    using T [THEN conjunct2, THEN conjunct2, THEN conjunct1]
    unfolding pend by (simp add: getMigrations_def migration_log_def)
  have again: "snd (snd (Run healthyGorm ?m')) =
     (if fst (Run healthyGorm ?m') = None
      then [''All migrations completed successfully''] else [])"
    using T [THEN conjunct2, THEN conjunct2, THEN conjunct2, THEN conjunct2]
    by (metis prod.collapse)
  from tracks Run_partlyMigrated before after log again show ?thesis
    by (intro conjI)
qed

text \<open>
  The claim as stated, for every state of the database, does not hold: \<open>Run\<close> stops at
  the first migration that fails. On an empty database whose user may not create
  extensions, all five migrations are pending, the first one fails, \<open>Run\<close> returns its
  error, and no migration has been applied or recorded.
\<close>

theorem Run_stops_at_failing_migration:
  "map Version (pending mem_recorded (NewMigrator restrictedGorm emptyDb)) =
     [''001_initial_schema'', ''002_rbac_system'', ''003_process_engine'',
      ''004_audit_system'', ''005_indexes_optimization''] \<and>
   fst (Run restrictedGorm (NewMigrator restrictedGorm emptyDb)) =
     Some (Errorf ''migration 001_initial_schema failed: '' (ErrorString ''permission denied'')) \<and>
   Migrator_db (fst (snd (Run restrictedGorm (NewMigrator restrictedGorm emptyDb)))) =
     \<lparr>mem_records = [], mem_changes = [''AutoMigrate MigrationRecord'']\<rparr> \<and>
   snd (snd (Run restrictedGorm (NewMigrator restrictedGorm emptyDb))) =
     [''Running migration 001_initial_schema: Create initial database schema'']"
  by (simp add: pending_def mem_recorded_def Run_def NewMigrator_def getMigrations_def
      restrictedGorm_def memoryGorm_def getAppliedMigrations_def index_bool_def
      migration001Up_def thenE_def change_def emptyDb_def Let_def)

section \<open>Properties of the engine of the specification\<close>

subsection \<open>The definition store\<close>

lemma fold_max_ge: "a \<le> fold max xs (a::nat)"
  by (induction xs arbitrary: a) (auto intro: order_trans [OF max.cobounded2])

lemma fold_max_mem: "x \<in> set xs \<Longrightarrow> x \<le> fold max xs (a::nat)"
proof (induction xs arbitrary: a)
  case Nil
  then show ?case by simp
next
  case (Cons y ys)
  show ?case
  proof (cases "x = y")
    case True
    have "y \<le> max y a" by simp
    also have "\<dots> \<le> fold max ys (max y a)" by (rule fold_max_ge)
    finally show ?thesis using True by simp
  next
    case False
    with Cons.prems have "x \<in> set ys" by simp
    then show ?thesis using Cons.IH by simp
  qed
qed

lemma stored_version_le_highest:
  assumes "map_of st (k, v) = Some d"
  shows "v \<le> highest_version st k"
proof -
  from assms have "((k, v), d) \<in> set st" by (rule map_of_SomeD)
  then have "v \<in> set (versions_of st k)"
    by (force simp: versions_of_def)
  then show ?thesis
    unfolding highest_version_def by (rule fold_max_mem)
qed

lemma next_version_fresh: "map_of st (k, Suc (highest_version st k)) = None"
proof (cases "map_of st (k, Suc (highest_version st k))")
  case None
  then show ?thesis .
next
  case (Some d)
  then have "Suc (highest_version st k) \<le> highest_version st k"
    by (rule stored_version_le_highest)
  then show ?thesis by simp
qed

lemma publish_keeps:
  assumes "publish st d = Inr (kv, st')" and "get st k0 (Some v0) = Inr d0"
  shows "get st' k0 (Some v0) = Inr d0"
  using assms
  by (auto simp: publish_def get_def Let_def map_add_def split: if_splits option.splits)

lemma publish_all_keeps:
  assumes "get st k0 (Some v0) = Inr d0"
  shows "get (publish_all st ds) k0 (Some v0) = Inr d0"
  using assms
proof (induction ds arbitrary: st)
  case Nil
  then show ?case by simp
next
  case (Cons d ds)
  show ?case
  proof (cases "publish st d")
    case (Inl err)
    with Cons show ?thesis by simp
  next
    case (Inr r)
    obtain kv st' where r: "r = (kv, st')" by (cases r)
    with Inr Cons.prems have "get st' k0 (Some v0) = Inr d0"
      by (auto intro: publish_keeps)
    then have "get (publish_all st' ds) k0 (Some v0) = Inr d0" by (rule Cons.IH)
    with Inr r show ?thesis by simp
  qed
qed

text \<open>
  Claim C2. Once \<open>publish\<close> has succeeded for a key and a version, that version was new
  (nothing was stored under it before), it is retrievable, and every version published
  before it, of this key or another, is unchanged and retrievable; and whatever is
  published afterwards, under the same key or another, each published version stays as
  it is. A later publish under the same key gives a higher version.
\<close>

theorem published_versions_are_immutable:
  assumes "publish st d = Inr ((k, v), st')"
  shows "k = definition_key d \<and>
         get st k (Some v) = Inl NotFoundError \<and>
         get st' k (Some v) = Inr (d\<lparr>definition_version := v\<rparr>) \<and>
         (\<forall>k0 v0 d0. get st k0 (Some v0) = Inr d0 \<longrightarrow>
            get st' k0 (Some v0) = Inr d0 \<and> (k0 = k \<longrightarrow> v0 < v)) \<and>
         (\<forall>ds k0 v0 d0. get st' k0 (Some v0) = Inr d0 \<longrightarrow>
            get (publish_all st' ds) k0 (Some v0) = Inr d0)"
proof -
  from assms have k: "k = definition_key d" and v: "v = Suc (highest_version st k)"
    and st': "st' = st @ [((k, v), d\<lparr>definition_version := v\<rparr>)]"
    by (auto simp: publish_def Let_def split: if_splits)
  have fresh: "map_of st (k, v) = None"
    unfolding v by (rule next_version_fresh)
  then have new: "get st k (Some v) = Inl NotFoundError"
    by (simp add: get_def)
  have stored: "get st' k (Some v) = Inr (d\<lparr>definition_version := v\<rparr>)"
    using fresh by (simp add: get_def st' map_add_def)
  have older: "get st' k0 (Some v0) = Inr d0 \<and> (k0 = k \<longrightarrow> v0 < v)"
    if old: "get st k0 (Some v0) = Inr d0" for k0 v0 d0
  proof
    show "get st' k0 (Some v0) = Inr d0"
      using assms old by (rule publish_keeps)
    show "k0 = k \<longrightarrow> v0 < v"
    proof
      assume "k0 = k"
      with old have "map_of st (k, v0) = Some d0"
        by (simp add: get_def split: option.splits)
      then have "v0 \<le> highest_version st k" by (rule stored_version_le_highest)
      with v show "v0 < v" by simp
    qed
  qed
  from k new stored older publish_all_keeps show ?thesis
    by blast
qed

theorem published_versions_are_immutable_witness:
  "publish [] leaveApproval
     = Inr ((''leave-approval'', 1), [((''leave-approval'', 1), leaveApproval\<lparr>definition_version := 1\<rparr>)]) \<and>
   publish [((''leave-approval'', 1), leaveApproval\<lparr>definition_version := 1\<rparr>)] leaveApproval
     = Inr ((''leave-approval'', 2),
            [((''leave-approval'', 1), leaveApproval\<lparr>definition_version := 1\<rparr>),
             ((''leave-approval'', 2), leaveApproval\<lparr>definition_version := 2\<rparr>)]) \<and>
   get [((''leave-approval'', 1), leaveApproval\<lparr>definition_version := 1\<rparr>),
        ((''leave-approval'', 2), leaveApproval\<lparr>definition_version := 2\<rparr>)]
       ''leave-approval'' (Some 1) = Inr (leaveApproval\<lparr>definition_version := 1\<rparr>)"
proof -
  let ?st1 = "[((''leave-approval'', 1::nat), leaveApproval\<lparr>definition_version := 1\<rparr>)]"
  let ?st2 = "?st1 @ [((''leave-approval'', 2::nat), leaveApproval\<lparr>definition_version := 2\<rparr>)]"
  have valid: "valid_graph leaveApproval"
    by (simp add: valid_graph_def leaveApproval_def start_steps_def step_ids_def
        successors_def numeral_eq_Suc)
  have key: "definition_key leaveApproval = ''leave-approval''"
    by (simp add: leaveApproval_def)
  have first: "publish [] leaveApproval = Inr ((''leave-approval'', 1), ?st1)"
    by (simp add: publish_def valid key highest_version_def versions_of_def Let_def)
  have second: "publish ?st1 leaveApproval = Inr ((''leave-approval'', 2), ?st2)"
    by (simp add: publish_def valid key highest_version_def versions_of_def Let_def)
  have "get ?st1 ''leave-approval'' (Some 1) = Inr (leaveApproval\<lparr>definition_version := 1\<rparr>)"
    by (simp add: get_def)
  with published_versions_are_immutable [OF second]
  have "get ?st2 ''leave-approval'' (Some 1) = Inr (leaveApproval\<lparr>definition_version := 1\<rparr>)"
    by blast
  with first second show ?thesis by simp
qed

subsection \<open>Claiming a task\<close>

text \<open>
  Claim C6. A claim on a task in state Created succeeds and leaves the task Assigned to
  the claiming user. Of two claims on the same task by different users, the engine runs
  one first: that one succeeds, the other fails with \<open>ConflictError\<close> and changes
  nothing, and the task stays assigned to the user whose claim succeeded.
\<close>

theorem first_claim_wins:
  assumes "tasks s taskId = Some t" and "task_status t = Created" and "user1 \<noteq> user2"
  shows "fst (claim now1 s taskId user1) = None \<and>
         map_option task_status (tasks (snd (claim now1 s taskId user1)) taskId) = Some Assigned \<and>
         map_option task_assignee (tasks (snd (claim now1 s taskId user1)) taskId)
           = Some (Some user1) \<and>
         claim now2 (snd (claim now1 s taskId user1)) taskId user2
           = (Some ConflictError, snd (claim now1 s taskId user1))"
  using assms by (simp add: claim_def)

theorem first_claim_wins_witness:
  "tasks runningEngine ''task-1'' = Some reviewTask \<and> task_status reviewTask = Created \<and>
   ''alice'' \<noteq> ''bob'' \<and>
   fst (claim 11 runningEngine ''task-1'' ''alice'') = None \<and>
   map_option task_assignee (tasks (snd (claim 11 runningEngine ''task-1'' ''alice'')) ''task-1'')
     = Some (Some ''alice'') \<and>
   fst (claim 12 (snd (claim 11 runningEngine ''task-1'' ''alice'')) ''task-1'' ''bob'')
     = Some ConflictError \<and>
   map_option task_assignee
     (tasks (snd (claim 12 (snd (claim 11 runningEngine ''task-1'' ''alice'')) ''task-1'' ''bob''))
        ''task-1'') = Some (Some ''alice'')"
proof -
  have 1: "tasks runningEngine ''task-1'' = Some reviewTask"
    by (simp add: runningEngine_def)
  have 2: "task_status reviewTask = Created"
    by (simp add: reviewTask_def)
  have 3: "''alice'' \<noteq> ''bob''" by simp
  from first_claim_wins [OF 1 2 3, of 11 12] 1 2 3 show ?thesis
    by simp
qed

subsection \<open>Cancelling an instance\<close>

text \<open>
  Claim C7. Cancelling an instance whose status is already Completed, Cancelled or Failed
  returns success, with no error, and leaves the whole state of the engine (the status,
  the current steps and the variables of the instance, and the task instances) as it is.
  So \<open>cancel\<close> is idempotent: cancelling again after any cancel changes nothing more.
\<close>

theorem cancel_terminal_is_noop:
  assumes "instances s instanceId = Some i"
  shows "(instance_status i \<in> {InstanceCompleted, InstanceCancelled, Failed} \<longrightarrow>
           cancel now s instanceId = (None, s)) \<and>
         cancel now' (snd (cancel now s instanceId)) instanceId
           = (None, snd (cancel now s instanceId))"
  using assms by (auto simp: cancel_def)

theorem cancel_terminal_is_noop_witness:
  "map_option instance_status (instances completedEngine ''instance-1'') = Some InstanceCompleted \<and>
   cancel 30 completedEngine ''instance-1'' = (None, completedEngine) \<and>
   fst (cancel 30 runningEngine ''instance-1'') = None \<and>
   map_option instance_status (instances (snd (cancel 30 runningEngine ''instance-1'')) ''instance-1'')
     = Some InstanceCancelled \<and>
   map_option task_status (tasks (snd (cancel 30 runningEngine ''instance-1'')) ''task-1'')
     = Some TaskCancelled \<and>
   cancel 31 (snd (cancel 30 runningEngine ''instance-1'')) ''instance-1''
     = (None, snd (cancel 30 runningEngine ''instance-1''))"
proof -
  obtain i where i: "instances completedEngine ''instance-1'' = Some i"
    and status: "instance_status i = InstanceCompleted"
    by (simp add: completedEngine_def)
  obtain j where j: "instances runningEngine ''instance-1'' = Some j"
    by (simp add: runningEngine_def)
  from cancel_terminal_is_noop [OF i, where now = 30] status
  have "cancel 30 completedEngine ''instance-1'' = (None, completedEngine)"
    by simp
  moreover from cancel_terminal_is_noop [OF j, where now = 30 and now' = 31]
  have "cancel 31 (snd (cancel 30 runningEngine ''instance-1'')) ''instance-1''
     = (None, snd (cancel 30 runningEngine ''instance-1''))"
    by simp
  moreover have "fst (cancel 30 runningEngine ''instance-1'') = None"
    and "map_option instance_status
       (instances (snd (cancel 30 runningEngine ''instance-1'')) ''instance-1'')
     = Some InstanceCancelled"
    and "map_option task_status (tasks (snd (cancel 30 runningEngine ''instance-1'')) ''task-1'')
     = Some TaskCancelled"
    by (simp_all add: cancel_def runningEngine_def cancel_task_def reviewTask_def)
  ultimately show ?thesis
    using i status by simp
qed

end
